theory Spec2Isabelle
  imports Complex_Main "HOL-Library.Multiset"
begin

section \<open>Go values, slices and run-time panics\<close>

text \<open>
  The renderer (\<open>renderer/svg.go\<close>) computes with \<open>float64\<close>. Every number it receives is
  decoded from a JSON body, so it is finite; a finite \<open>float64\<close> is modelled by the real
  number it denotes and comparisons are the comparisons of those reals. Rounding and
  overflow of the arithmetic are not modelled, so sums, differences and products of
  finite numbers are finite. A division is different: Go does not panic on a
  floating-point division by zero but yields an infinity or NaN, and \<open>svg.go\<close> divides by
  a total range that can be zero. The quotients, and everything computed from them, are
  values of the type \<open>float64\<close> below.

  An index outside a slice and a field access through a nil pointer stop the program with
  a run-time panic. Both are results of the model: a function that can panic returns
  \<open>panic + 'a\<close>, with \<open>Inl\<close> for the panic.
\<close>

datatype panic = IndexOutOfRange | NilPointerDereference

definition index :: "'a list \<Rightarrow> int \<Rightarrow> panic + 'a" where
  "index xs i = (if 0 \<le> i \<and> i < int (length xs) then Inr (xs ! nat i) else Inl IndexOutOfRange)"

text \<open>Sequencing: the first panic ends the computation.\<close>

definition andThen :: "panic + 'a \<Rightarrow> ('a \<Rightarrow> panic + 'b) \<Rightarrow> panic + 'b" where
  "andThen m f = (case m of Inl p \<Rightarrow> Inl p | Inr x \<Rightarrow> f x)"

text \<open>Reading a field through a pointer that may be nil.\<close>

definition deref :: "'a option \<Rightarrow> panic + 'a" where
  "deref p = (case p of None \<Rightarrow> Inl NilPointerDereference | Some x \<Rightarrow> Inr x)"

text \<open>A nil slice has length 0 and ranges over nothing, like the empty slice.\<close>

definition elems :: "'a list option \<Rightarrow> 'a list" where
  "elems s = (case s of None \<Rightarrow> [] | Some xs \<Rightarrow> xs)"

text \<open>
  A value of type \<open>interface{}\<close> as the JSON decoder produces it (scalars only; nested arrays
  and objects play no part in the functions modelled here).
\<close>

datatype jvalue = JNull | JString string | JNumber real | JBool bool

section \<open>The request model (package models, as svg.go uses it)\<close>

text \<open>
  The declarations of package \<open>models\<close> are not part of the sources at hand; the records
  below hold exactly the fields that \<open>svg.go\<close> reads, with the types its expressions force.
  A pointer field that may be nil is an \<open>option\<close>; \<open>Data\<close> is a slice that the code compares
  with nil, so it is an \<open>option\<close> as well. Where two Go structs share a field name, the
  second one gets a prefix (\<open>bi_\<close> for \<open>breakInfo\<close>, \<open>Feature\<close> for the feature's \<open>ID\<close>).
\<close>

record ChoroplethBreak =
  LowerBound :: real
  Colour :: string

datatype LegendPosition = LegendPositionBefore | LegendPositionAfter | LegendPositionNone

record Choropleth =
  ReferenceValue :: real
  ReferenceValueText :: string
  ValuePrefix :: string
  ValueSuffix :: string
  Breaks :: "ChoroplethBreak list"
  UpperBound :: real
  HorizontalLegendPosition :: LegendPosition
  VerticalLegendPosition :: LegendPosition

record DataRow =
  ID :: string
  Value :: real

record Topology =
  Arcs :: "real list list list"
  Objects :: "string list"

record Geography =
  Topojson :: "Topology option"
  IDProperty :: string
  NameProperty :: string

record RenderRequest =
  Filename :: string
  Geography :: "Geography option"
  Data :: "DataRow list option"
  Choropleth :: "Choropleth option"
  DefaultWidth :: real
  MinWidth :: real
  MaxWidth :: real
  IncludeFallbackPng :: bool
  FontSize :: int

text \<open>
  A geojson feature: its id and its property bag. The geometry is read only by the
  drawing library and is left out.
\<close>

record Feature =
  FeatureID :: jvalue
  Properties :: "string \<rightharpoonup> jvalue"

section \<open>Choropleth colours\<close>

text \<open>\<open>sortBreaks\<close> (svg.go:239-250). \<open>sort.Slice\<close> is not stable: the model is exact
  whenever the lower bounds are pairwise different, and picks the stable order where the
  code may pick another order of the breaks with equal lower bounds. What is proved about
  the colours of the regions below is stated for a sorted arrangement of the breaks, which
  is all that the code determines.\<close>

definition sortBreaks :: "ChoroplethBreak list \<Rightarrow> bool \<Rightarrow> ChoroplethBreak list" where
  "sortBreaks breaks asc =
     (if asc then sort_key LowerBound breaks else sort_key (\<lambda>b. - LowerBound b) breaks)"

text \<open>The range loop of \<open>getColour\<close> (svg.go:231-235): the colour returned from inside
  the loop, if any.\<close>

fun getColour_loop :: "real \<Rightarrow> ChoroplethBreak list \<Rightarrow> string option" where
  "getColour_loop v [] = None"
| "getColour_loop v (b # bs) = (if v \<ge> LowerBound b then Some (Colour b) else getColour_loop v bs)"

text \<open>\<open>getColour\<close> (svg.go:229-237); the last line indexes \<open>breaks[len(breaks)-1]\<close>.\<close>

definition getColour :: "real \<Rightarrow> ChoroplethBreak list \<Rightarrow> panic + string" where
  "getColour v breaks =
     (case getColour_loop v breaks of
        Some c \<Rightarrow> Inr c
      | None \<Rightarrow> andThen (index breaks (int (length breaks) - 1)) (\<lambda>b. Inr (Colour b)))"

section \<open>Quotients: float64 with infinities and NaN\<close>

text \<open>
  A \<open>float64\<close> that may be the result of a division by zero: a finite number, one of the
  two infinities, or NaN. The operations follow IEEE 754 on the special values and are
  exact on finite numbers. Signed zeros are not told apart: the only divisor that can be
  zero in \<open>svg.go\<close> is a difference of two finite numbers, which is \<open>+0\<close> when they are
  equal.
\<close>

datatype float64 = Finite real | PosInf | NegInf | NaN

text \<open>The infinity with the sign of \<open>a\<close>, and NaN for zero: \<open>a / 0\<close> and \<open>a * Inf\<close>.\<close>

definition signedInf :: "real \<Rightarrow> float64" where
  "signedInf a = (if a = 0 then NaN else if a > 0 then PosInf else NegInf)"

text \<open>The quotient of two finite numbers.\<close>

definition divide64 :: "real \<Rightarrow> real \<Rightarrow> float64" where
  "divide64 a b = (if b = 0 then signedInf a else Finite (a / b))"

fun fneg :: "float64 \<Rightarrow> float64" where
  "fneg (Finite a) = Finite (- a)"
| "fneg PosInf = NegInf"
| "fneg NegInf = PosInf"
| "fneg NaN = NaN"

fun fadd :: "float64 \<Rightarrow> float64 \<Rightarrow> float64" where
  "fadd NaN y = NaN"
| "fadd x NaN = NaN"
| "fadd (Finite a) (Finite b) = Finite (a + b)"
| "fadd PosInf NegInf = NaN"
| "fadd NegInf PosInf = NaN"
| "fadd PosInf y = PosInf"
| "fadd x PosInf = PosInf"
| "fadd NegInf y = NegInf"
| "fadd x NegInf = NegInf"

definition fsub :: "float64 \<Rightarrow> float64 \<Rightarrow> float64" where
  "fsub x y = fadd x (fneg y)"

fun fmul :: "float64 \<Rightarrow> float64 \<Rightarrow> float64" where
  "fmul NaN y = NaN"
| "fmul x NaN = NaN"
| "fmul (Finite a) (Finite b) = Finite (a * b)"
| "fmul (Finite a) PosInf = signedInf a"
| "fmul (Finite a) NegInf = signedInf (- a)"
| "fmul PosInf (Finite b) = signedInf b"
| "fmul NegInf (Finite b) = signedInf (- b)"
| "fmul PosInf PosInf = PosInf"
| "fmul NegInf NegInf = PosInf"
| "fmul PosInf NegInf = NegInf"
| "fmul NegInf PosInf = NegInf"

text \<open>\<open>math.Abs\<close>.\<close>

fun fabs :: "float64 \<Rightarrow> float64" where
  "fabs (Finite a) = Finite \<bar>a\<bar>"
| "fabs PosInf = PosInf"
| "fabs NegInf = PosInf"
| "fabs NaN = NaN"

text \<open>The comparisons \<open><\<close>, \<open>>\<close> and \<open>>=\<close>; every comparison with NaN is false.\<close>

fun flt :: "float64 \<Rightarrow> float64 \<Rightarrow> bool" where
  "flt NaN y = False"
| "flt x NaN = False"
| "flt (Finite a) (Finite b) = (a < b)"
| "flt PosInf y = False"
| "flt x PosInf = True"
| "flt NegInf NegInf = False"
| "flt NegInf y = True"
| "flt x NegInf = False"

definition fgt :: "float64 \<Rightarrow> float64 \<Rightarrow> bool" where
  "fgt x y = flt y x"


section \<open>Break information for the legends\<close>

record breakInfo =
  bi_LowerBound :: real
  bi_UpperBound :: real
  bi_RelativeSize :: float64
  bi_Colour :: string

text \<open>The first loop of \<open>getSortedBreakInfo\<close> (svg.go:521-523): one entry for every break
  but the last, its upper bound the lower bound of the next break. The relative size is
  not set yet and has the zero value of its type.\<close>

fun pairBreaks :: "ChoroplethBreak list \<Rightarrow> breakInfo list" where
  "pairBreaks (b # b' # bs) =
     \<lparr>bi_LowerBound = LowerBound b, bi_UpperBound = LowerBound b', bi_RelativeSize = Finite 0,
      bi_Colour = Colour b\<rparr> # pairBreaks (b' # bs)"
| "pairBreaks bs = []"

text \<open>The second loop (svg.go:526-528), over a slice of pointers. The quotient is a
  \<open>float64\<close> division by the total range.\<close>

definition setRelativeSize :: "real \<Rightarrow> breakInfo \<Rightarrow> breakInfo" where
  "setRelativeSize totalRange b =
     b\<lparr>bi_RelativeSize := divide64 (bi_UpperBound b - bi_LowerBound b) totalRange\<rparr>"

fun setRelativeSizes :: "real \<Rightarrow> breakInfo option list \<Rightarrow> panic + breakInfo list" where
  "setRelativeSizes totalRange [] = Inr []"
| "setRelativeSizes totalRange (None # bs) = Inl NilPointerDereference"
| "setRelativeSizes totalRange (Some b # bs) =
     andThen (setRelativeSizes totalRange bs) (\<lambda>r. Inr (setRelativeSize totalRange b # r))"

text \<open>
  \<open>getSortedBreakInfo\<close> (svg.go:505-531). \<open>info\<close> is a slice of pointers that \<open>make\<close> fills
  with nil: the model keeps it as a list of options, so that the assignment
  \<open>info[0].LowerBound = minValue\<close> (svg.go:524) through a nil entry is the panic it is in Go.
  The line that builds \<open>info\<close> is reached with at least one break only (\<open>breaks[0]\<close> was
  read before), and then \<open>info\<close> has one entry for every break, all but the last filled
  by the first loop. Only the values of the first and the last row of the sorted data are
  read. The reference position is a quotient by the total range like the relative sizes.
\<close>

definition getSortedBreakInfo :: "RenderRequest \<Rightarrow> panic + (breakInfo list \<times> float64)" where
  "getSortedBreakInfo request =
     (let data = sort_key Value (elems (Data request)) in
      andThen (deref (Choropleth request)) (\<lambda>choropleth.
      let breaks = sortBreaks (Breaks choropleth) True in
      andThen (index data 0) (\<lambda>d0.
      andThen (index breaks 0) (\<lambda>b0.
      let minValue = min (Value d0) (LowerBound b0) in
      andThen (index breaks (int (length breaks) - 1)) (\<lambda>bl.
      andThen (if UpperBound choropleth < LowerBound bl
               then andThen (index data (int (length data) - 1)) (\<lambda>dl. Inr (Value dl))
               else Inr (UpperBound choropleth)) (\<lambda>maxValue.
      let totalRange = maxValue - minValue;
          breakCount = length breaks;
          info = map Some (pairBreaks breaks) @ [None] in
      andThen (index info 0) (\<lambda>e0.
      andThen (deref e0) (\<lambda>i0.
      let info1 = info[0 := Some (i0\<lparr>bi_LowerBound := minValue\<rparr>)];
          info2 = info1[breakCount - 1 :=
                    Some \<lparr>bi_LowerBound = LowerBound bl, bi_UpperBound = maxValue,
                          bi_RelativeSize = Finite 0, bi_Colour = Colour bl\<rparr>];
          referencePos = divide64 (ReferenceValue choropleth - minValue) totalRange in
      andThen (setRelativeSizes totalRange info2) (\<lambda>info3.
      Inr (info3, referencePos))))))))))"
section \<open>Collaborators outside svg.go\<close>

text \<open>
  \<open>svg.go\<close> calls into the topojson decoder, the drawing library \<open>geojson2svg\<close>, the text
  metrics of \<open>htmlutil\<close>, two helpers of its own package that live in another file
  (\<open>idPrefix\<close>, \<open>mapID\<close>) and the formatting verbs of \<open>fmt\<close>. None of them is part of the
  sources at hand: each is a parameter of the model, collected in one record, and nothing
  is assumed about what they compute. \<open>sprint_g\<close>, \<open>sprint_f\<close> and \<open>sprint_f0\<close> stand for
  the verbs \<open>%g\<close>, \<open>%f\<close> and \<open>%.f\<close> applied to a \<open>float64\<close>. \<open>pngConverter\<close> is the
  package variable set by \<open>UsePNGConverter\<close>; its only method is \<open>IncludeFallbackImage\<close>.
  The \<open>SVG\<close> object of the drawing library holds the feature collection appended to it,
  by reference; the model hands the features to the library's functions instead. Of the
  drawing itself, \<open>DrawFeatures\<close> is what the library writes inside the svg element of the
  map; the element is modelled from the specification further down.
\<close>

type_synonym PNGConverter = "string \<Rightarrow> string \<Rightarrow> real \<Rightarrow> real \<Rightarrow> string"

record drawOptions =
  UseProperties :: "string list"
  WithTitles :: string
  WithAttributes :: "(string \<times> string) list"
  WithPNGFallback :: "PNGConverter option"
  WithPattern :: string
  WithResponsiveSize :: bool

record externals =
  ToGeoJSON :: "Topology \<Rightarrow> Feature list"
  GetHeightForWidth :: "Feature list \<Rightarrow> real \<Rightarrow> real"
  DrawFeatures :: "Feature list \<Rightarrow> real \<Rightarrow> real \<Rightarrow> drawOptions \<Rightarrow> string"
  GetApproximateTextWidth :: "string \<Rightarrow> int \<Rightarrow> real"
  idPrefix :: "RenderRequest \<Rightarrow> string"
  mapID :: "RenderRequest \<Rightarrow> string"
  sprint_g :: "float64 \<Rightarrow> string"
  sprint_f :: "float64 \<Rightarrow> string"
  sprint_f0 :: "float64 \<Rightarrow> string"
  pngConverter :: "PNGConverter option"

text \<open>The verb \<open>%v\<close> on a scalar \<open>interface{}\<close> value.\<close>

fun sprint_v :: "externals \<Rightarrow> jvalue \<Rightarrow> string" where
  "sprint_v ext JNull = ''<nil>''"
| "sprint_v ext (JString s) = s"
| "sprint_v ext (JNumber x) = sprint_g ext (Finite x)"
| "sprint_v ext (JBool b) = (if b then ''true'' else ''false'')"

section \<open>Constants of svg.go\<close>

definition RegionClassName :: string where
  "RegionClassName = ''mapRegion''"

definition MissingDataText :: string where
  "MissingDataText = ''data unavailable''"

text \<open>\<open>MissingDataPattern\<close> (svg.go:24-37) is a format with one \<open>%s\<close>; the definition is the
  format applied to its argument, line breaks included.\<close>

definition MissingDataPattern :: \<open>string \<Rightarrow> string\<close> where
  \<open>MissingDataPattern ident =
     ''<pattern id="'' @ ident @ ''-nodata" width="20" height="20" patternUnits="userSpaceOnUse">'' @ [CHR 0x0A] @
     ''<g fill="#6D6E72">'' @ [CHR 0x0A] @
     ''<polygon points="00 00 02 00 00 02 00 00"></polygon>'' @ [CHR 0x0A] @
     ''<polygon points="04 00 06 00 00 06 00 04"></polygon>'' @ [CHR 0x0A] @
     ''<polygon points="08 00 10 00 00 10 00 08"></polygon>'' @ [CHR 0x0A] @
     ''<polygon points="12 00 14 00 00 14 00 12"></polygon>'' @ [CHR 0x0A] @
     ''<polygon points="16 00 18 00 00 18 00 16"></polygon>'' @ [CHR 0x0A] @
     ''<polygon points="20 00 20 02 02 20 00 20"></polygon>'' @ [CHR 0x0A] @
     ''<polygon points="20 04 20 06 06 20 04 20"></polygon>'' @ [CHR 0x0A] @
     ''<polygon points="20 08 20 10 10 20 08 20"></polygon>'' @ [CHR 0x0A] @
     ''<polygon points="20 12 20 14 14 20 12 20"></polygon>'' @ [CHR 0x0A] @
     ''<polygon points="20 16 20 18 18 20 16 20"></polygon>'' @ [CHR 0x0A] @
     ''</g>'' @ [CHR 0x0A] @
     ''</pattern>''\<close>

section \<open>Geometry, view box and feature properties\<close>

text \<open>\<open>getGeoJSON\<close> (svg.go:133-143); nil is \<open>None\<close>.\<close>

definition getGeoJSON :: "externals \<Rightarrow> RenderRequest \<Rightarrow> Feature list option" where
  "getGeoJSON ext req =
     (case Geography req of
        None \<Rightarrow> None
      | Some geography \<Rightarrow>
          (case Topojson geography of
             None \<Rightarrow> None
           | Some topojson \<Rightarrow>
               if length (Arcs topojson) = 0 \<or> length (Objects topojson) = 0 then None
               else Some (ToGeoJSON ext topojson)))"

text \<open>\<open>getViewBoxDimensions\<close> (svg.go:147-157).\<close>

definition getViewBoxDimensions :: "externals \<Rightarrow> Feature list \<Rightarrow> RenderRequest \<Rightarrow> real \<times> real" where
  "getViewBoxDimensions ext svg req =
     (let width = DefaultWidth req;
          width = (if width \<le> 0 then (MinWidth req + MaxWidth req) / 2 else width);
          width = (if width \<le> 0 then 400 else width);
          height = GetHeightForWidth ext svg width
      in (width, height))"

text \<open>\<open>setFeatureIDs\<close> (svg.go:160-172), one feature at a time.\<close>

definition setFeatureID :: "string \<Rightarrow> string \<Rightarrow> Feature \<Rightarrow> Feature" where
  "setFeatureID idProperty prefix feature =
     (let fromOwnID = (case FeatureID feature of
                         JString i \<Rightarrow> if length i > 0 then feature\<lparr>FeatureID := JString (prefix @ i)\<rparr>
                                      else feature
                       | _ \<Rightarrow> feature)
      in case Properties feature idProperty of
           Some (JString i) \<Rightarrow> if length i > 0 then feature\<lparr>FeatureID := JString (prefix @ i)\<rparr>
                               else fromOwnID
         | _ \<Rightarrow> fromOwnID)"

definition setFeatureIDs :: "Feature list \<Rightarrow> string \<Rightarrow> string \<Rightarrow> Feature list" where
  "setFeatureIDs features idProperty prefix = map (setFeatureID idProperty prefix) features"

text \<open>\<open>appendProperty\<close> (svg.go:183-189). The property bag of a decoded feature is an
  allocated map, so the assignment into it does not panic.\<close>

definition appendProperty :: "externals \<Rightarrow> Feature \<Rightarrow> string \<Rightarrow> string \<Rightarrow> Feature" where
  "appendProperty ext feature propertyName v =
     (let s = (case Properties feature propertyName of
                 None \<Rightarrow> v
               | Some original \<Rightarrow> v @ '' '' @ sprint_v ext original)
      in feature\<lparr>Properties := (Properties feature)(propertyName \<mapsto> JString s)\<rparr>)"

text \<open>\<open>setClassProperty\<close> (svg.go:175-179).\<close>

definition setClassProperty :: "externals \<Rightarrow> Feature list \<Rightarrow> string \<Rightarrow> Feature list" where
  "setClassProperty ext features className =
     map (\<lambda>feature. appendProperty ext feature ''class'' className) features"

section \<open>Colours and titles of the regions\<close>

record valueAndColour =
  vc_value :: real
  vc_colour :: string

text \<open>\<open>mapDataToColour\<close> (svg.go:219-227). The keys of the Go map are \<open>interface{}\<close>
  values holding strings; a later row with the same id replaces an earlier one.\<close>

fun mapDataToColour_loop ::
  "DataRow list \<Rightarrow> ChoroplethBreak list \<Rightarrow> string \<Rightarrow> (jvalue \<rightharpoonup> valueAndColour)
     \<Rightarrow> panic + (jvalue \<rightharpoonup> valueAndColour)" where
  "mapDataToColour_loop [] bs prefix dataMap = Inr dataMap"
| "mapDataToColour_loop (row # rows) bs prefix dataMap =
     andThen (getColour (Value row) bs) (\<lambda>c.
       mapDataToColour_loop rows bs prefix
         (dataMap(JString (prefix @ ID row) \<mapsto> \<lparr>vc_value = Value row, vc_colour = c\<rparr>)))"

definition mapDataToColour ::
  "DataRow list \<Rightarrow> Choropleth \<Rightarrow> string \<Rightarrow> panic + (jvalue \<rightharpoonup> valueAndColour)" where
  "mapDataToColour data choropleth prefix =
     mapDataToColour_loop data (sortBreaks (Breaks choropleth) False) prefix Map.empty"

text \<open>The body of the loop of \<open>setChoroplethColoursAndTitles\<close> (svg.go:201-215); it reads
  \<open>request.Geography.NameProperty\<close> through the \<open>Geography\<close> pointer.\<close>

definition setColourAndTitle ::
  "externals \<Rightarrow> RenderRequest \<Rightarrow> Choropleth \<Rightarrow> (jvalue \<rightharpoonup> valueAndColour) \<Rightarrow> string
     \<Rightarrow> Feature \<Rightarrow> panic + Feature" where
  "setColourAndTitle ext req choropleth dataMap missingValueStyle feature =
     andThen (deref (Geography req)) (\<lambda>geography.
       let nameProperty = NameProperty geography;
           title = (case Properties feature nameProperty of
                      Some t \<Rightarrow> t | None \<Rightarrow> JString []);
           style = (case dataMap (FeatureID feature) of
                      Some vc \<Rightarrow> ''fill: '' @ vc_colour vc @ '';''
                    | None \<Rightarrow> missingValueStyle);
           title = (case dataMap (FeatureID feature) of
                      Some vc \<Rightarrow> sprint_v ext title @ '' '' @ ValuePrefix choropleth
                                  @ sprint_g ext (Finite (vc_value vc)) @ ValueSuffix choropleth
                    | None \<Rightarrow> sprint_v ext title @ '' '' @ MissingDataText);
           feature = feature\<lparr>Properties := (Properties feature)(nameProperty \<mapsto> JString title)\<rparr>
       in Inr (appendProperty ext feature ''style'' style))"

text \<open>A range loop whose body can panic: the features before the panic were updated, but
  the panic is all the caller sees.\<close>

fun forEach :: "('a \<Rightarrow> panic + 'b) \<Rightarrow> 'a list \<Rightarrow> panic + 'b list" where
  "forEach f [] = Inr []"
| "forEach f (x # xs) = andThen (f x) (\<lambda>y. andThen (forEach f xs) (\<lambda>ys. Inr (y # ys)))"

text \<open>\<open>setChoroplethColoursAndTitles\<close> (svg.go:193-216). The features are changed in
  place; the model returns them.\<close>

definition setChoroplethColoursAndTitles ::
  "externals \<Rightarrow> Feature list \<Rightarrow> RenderRequest \<Rightarrow> panic + Feature list" where
  "setChoroplethColoursAndTitles ext features req =
     (case Choropleth req of
        None \<Rightarrow> Inr features
      | Some choropleth \<Rightarrow>
          (case Data req of
             None \<Rightarrow> Inr features
           | Some data \<Rightarrow>
               (let ident = idPrefix ext req in
                andThen (mapDataToColour data choropleth (ident @ ''-'')) (\<lambda>dataMap.
                let missingValueStyle = ''fill: url(#'' @ ident @ ''-nodata);'' in
                forEach (setColourAndTitle ext req choropleth dataMap missingValueStyle) features))))"
section \<open>Legend classes and the width of the vertical legend\<close>

text \<open>\<open>hasVerticalLegend\<close>, \<open>hasHorizontalLegend\<close> and \<open>getKeyClass\<close> (svg.go:376-396).\<close>

definition hasVerticalLegend :: "RenderRequest \<Rightarrow> bool" where
  "hasVerticalLegend req =
     (case Choropleth req of
        None \<Rightarrow> False
      | Some c \<Rightarrow> VerticalLegendPosition c = LegendPositionBefore
                 \<or> VerticalLegendPosition c = LegendPositionAfter)"

definition hasHorizontalLegend :: "RenderRequest \<Rightarrow> bool" where
  "hasHorizontalLegend req =
     (case Choropleth req of
        None \<Rightarrow> False
      | Some c \<Rightarrow> HorizontalLegendPosition c = LegendPositionBefore
                 \<or> HorizontalLegendPosition c = LegendPositionAfter)"

definition getKeyClass :: "RenderRequest \<Rightarrow> string \<Rightarrow> string" where
  "getKeyClass req keyType =
     (let keyClass = ''map_key_'' @ keyType
      in if hasVerticalLegend req \<and> hasHorizontalLegend req
         then keyClass @ '' '' @ keyClass @ ''_both'' else keyClass)"

text \<open>The loop of \<open>getVerticalTickTextWidth\<close> (svg.go:412-421), with \<open>maxTick\<close> as its
  state.\<close>

fun maxTickWidth :: "externals \<Rightarrow> int \<Rightarrow> breakInfo list \<Rightarrow> real \<Rightarrow> real" where
  "maxTickWidth ext fontSize [] maxTick = maxTick"
| "maxTickWidth ext fontSize (b # bs) maxTick =
     (let lbound = GetApproximateTextWidth ext (sprint_g ext (Finite (bi_LowerBound b))) fontSize;
          maxTick = (if lbound > maxTick then lbound else maxTick);
          ubound = GetApproximateTextWidth ext (sprint_g ext (Finite (bi_UpperBound b))) fontSize;
          maxTick = (if ubound > maxTick then ubound else maxTick)
      in maxTickWidth ext fontSize bs maxTick)"

text \<open>\<open>getVerticalTickTextWidth\<close> (svg.go:410-426).\<close>

definition getVerticalTickTextWidth ::
  "externals \<Rightarrow> RenderRequest \<Rightarrow> breakInfo list \<Rightarrow> panic + (real \<times> real)" where
  "getVerticalTickTextWidth ext req bs =
     (let maxTick = maxTickWidth ext (FontSize req) bs 0 in
      andThen (deref (Choropleth req)) (\<lambda>choropleth.
      let refTick = GetApproximateTextWidth ext (ReferenceValueText choropleth) (FontSize req);
          refValue = GetApproximateTextWidth ext
                       (sprint_g ext (Finite (ReferenceValue choropleth))) (FontSize req);
          refWidth = max refTick refValue
      in Inr (maxTick + refWidth + 38, maxTick - refWidth)))"

text \<open>\<open>getVerticalLegendWidth\<close> (svg.go:400-406).\<close>

definition getVerticalLegendWidth ::
  "externals \<Rightarrow> RenderRequest \<Rightarrow> breakInfo list \<Rightarrow> panic + (real \<times> real)" where
  "getVerticalLegendWidth ext req bs =
     (let missingWidth = GetApproximateTextWidth ext MissingDataText (FontSize req) + 12 in
      andThen (deref (Choropleth req)) (\<lambda>choropleth.
      let titleWidth = GetApproximateTextWidth ext
                         (ValuePrefix choropleth @ '' '' @ ValueSuffix choropleth) (FontSize req);
          maxWidth = max missingWidth titleWidth in
      andThen (getVerticalTickTextWidth ext req bs) (\<lambda>(keyWidth, offset).
      Inr (max maxWidth keyWidth + 10, offset))))"

section \<open>The prepared request\<close>

text \<open>\<open>SVGRequest\<close> (svg.go:53-64), without the \<open>svg\<close> object of the drawing library. A nil
  \<open>geoJSON\<close> is \<open>None\<close>; a nil \<open>breaks\<close> slice is the empty list. The reference position
  is the quotient \<open>getSortedBreakInfo\<close> returns.\<close>

record SVGRequest =
  request :: RenderRequest
  geoJSON :: "Feature list option"
  ViewBoxWidth :: real
  ViewBoxHeight :: real
  breaks :: "breakInfo list"
  referencePos :: float64
  VerticalLegendWidth :: real
  verticalKeyOffset :: real
  responsiveSize :: bool

text \<open>\<open>PrepareSVGRequest\<close> (svg.go:67-96).\<close>

definition PrepareSVGRequest :: "externals \<Rightarrow> RenderRequest \<Rightarrow> panic + SVGRequest" where
  "PrepareSVGRequest ext req =
     (let g = getGeoJSON ext req;
          (width, height) = (case g of
                               None \<Rightarrow> (0, 0)
                             | Some features \<Rightarrow> getViewBoxDimensions ext features req);
          responsive = (MinWidth req > 0 \<and> MaxWidth req > 0);
          svgRequest = \<lparr>request = req, geoJSON = g, ViewBoxWidth = width, ViewBoxHeight = height,
                        breaks = [], referencePos = Finite 0, VerticalLegendWidth = 0,
                        verticalKeyOffset = 0, responsiveSize = responsive\<rparr>
      in if (case Choropleth req of None \<Rightarrow> False | Some c \<Rightarrow> length (Breaks c) > 0)
         then andThen (getSortedBreakInfo req) (\<lambda>(info, pos).
              andThen (getVerticalLegendWidth ext req info) (\<lambda>(legendWidth, offset).
              Inr (svgRequest\<lparr>breaks := info, referencePos := pos,
                               VerticalLegendWidth := legendWidth,
                               verticalKeyOffset := offset\<rparr>)))
         else Inr svgRequest)"

section \<open>The svg element\<close>

text \<open>The fixed pixel size of a legend (svg.go:275-277 and 335-337): written unless the
  size is responsive.\<close>

definition sizeAttributes :: \<open>externals \<Rightarrow> bool \<Rightarrow> real \<Rightarrow> real \<Rightarrow> string\<close> where
  \<open>sizeAttributes ext responsive w h =
     (if \<not> responsive
      then '' width="'' @ sprint_f0 ext (Finite w) @ ''" height="'' @ sprint_f0 ext (Finite h) @ ''"''
      else [])\<close>

text \<open>The end of both legend renderers (svg.go:301-304 and 363-366).\<close>

definition finishSVG :: \<open>externals \<Rightarrow> RenderRequest \<Rightarrow> string \<Rightarrow> string \<Rightarrow> real \<Rightarrow> real \<Rightarrow> string\<close> where
  \<open>finishSVG ext req attributes content w h =
     (case pngConverter ext of
        None \<Rightarrow> ''<svg '' @ attributes @ ''>'' @ content @ ''</svg>''
      | Some converter \<Rightarrow>
          if IncludeFallbackPng req = False
          then ''<svg '' @ attributes @ ''>'' @ content @ ''</svg>''
          else converter attributes content w h)\<close>

text \<open>Modelled from the spec: \<open>DrawWithProjection\<close> of the drawing library \<open>geojson2svg\<close>,
  which belongs to the repository but is not among the sources at hand; \<open>svg.go\<close> only calls
  it.
  The specification has the renderer emit one svg element for the map (section 4.6), has
  the svg elements support a responsive mode, which omits the fixed pixel width and height
  and relies on the view box, and a fixed-size mode (section 4.5, where it speaks of the
  legends), and has the markup handed to the raster converter with the pixel dimensions
  when one is configured and asked for, the svg being returned as it is otherwise
  (section 4.6). The model writes the element of the map the way \<open>svg.go\<close> writes those of
  the legends: the attributes it is given and then, in the fixed-size mode only, the
  width and height it is drawn with. What is drawn inside the element is the parameter
  \<open>DrawFeatures\<close>.
\<close>

definition DrawWithProjection ::
  \<open>externals \<Rightarrow> Feature list \<Rightarrow> real \<Rightarrow> real \<Rightarrow> drawOptions \<Rightarrow> string\<close> where
  \<open>DrawWithProjection ext features w h opts =
     (let attributes = concat (map (\<lambda>(name, v). '' '' @ name @ ''="'' @ v @ ''"'')
                                 (WithAttributes opts))
                         @ sizeAttributes ext (WithResponsiveSize opts) w h;
          content = DrawFeatures ext features w h opts
      in case WithPNGFallback opts of
           None \<Rightarrow> ''<svg'' @ attributes @ ''>'' @ content @ ''</svg>''
         | Some converter \<Rightarrow> converter attributes content w h)\<close>

text \<open>\<open>RenderSVG\<close> (svg.go:99-130). \<open>strings.Replace\<close> removes the line breaks of the
  pattern.\<close>

definition RenderSVG :: \<open>externals \<Rightarrow> SVGRequest \<Rightarrow> panic + string\<close> where
  \<open>RenderSVG ext svgRequest =
     (case geoJSON svgRequest of
        None \<Rightarrow> Inr []
      | Some features \<Rightarrow>
         (let req = request svgRequest;
              vbWidth = ViewBoxWidth svgRequest;
              vbHeight = ViewBoxHeight svgRequest;
              ident = idPrefix ext req in
          andThen (deref (Geography req)) (\<lambda>geography.
          let features = setFeatureIDs features (IDProperty geography) (ident @ ''-'');
              features = setClassProperty ext features RegionClassName in
          andThen (setChoroplethColoursAndTitles ext features req) (\<lambda>features.
          let converter = (if \<not> IncludeFallbackPng req then None else pngConverter ext);
              missingDataPattern = filter (\<lambda>c. c \<noteq> CHR 0x0A) (MissingDataPattern ident)
          in Inr (DrawWithProjection ext features vbWidth vbHeight
                    \<lparr>UseProperties = [''style'', ''class''],
                     WithTitles = NameProperty geography,
                     WithAttributes =
                       [(''id'', mapID ext req @ ''-svg''),
                        (''viewBox'', ''0 0 '' @ sprint_f0 ext (Finite vbWidth) @ '' ''
                                        @ sprint_f0 ext (Finite vbHeight))],
                     WithPNGFallback = converter,
                     WithPattern = missingDataPattern,
                     WithResponsiveSize = responsiveSize svgRequest\<rparr>)))))\<close>

section \<open>The horizontal legend\<close>

record horizontalRefTextInfo =
  referenceTextShort :: string
  referenceTextShortLen :: real
  referenceTextLong :: string
  referenceTextLongLen :: real

text \<open>\<open>getHorizontalRefTextInfo\<close> (svg.go:596-613).\<close>

definition getHorizontalRefTextInfo ::
  "externals \<Rightarrow> RenderRequest \<Rightarrow> panic + horizontalRefTextInfo" where
  "getHorizontalRefTextInfo ext req =
     andThen (deref (Choropleth req)) (\<lambda>choropleth.
     let refTextLen = GetApproximateTextWidth ext (ReferenceValueText choropleth) (FontSize req);
         refValue = sprint_g ext (Finite (ReferenceValue choropleth));
         refValueLen = GetApproximateTextWidth ext refValue (FontSize req)
     in Inr (if refTextLen > refValueLen
             then \<lparr>referenceTextShort = refValue, referenceTextShortLen = refValueLen,
                   referenceTextLong = ReferenceValueText choropleth,
                   referenceTextLongLen = refTextLen\<rparr>
             else \<lparr>referenceTextShort = ReferenceValueText choropleth,
                   referenceTextShortLen = refTextLen,
                   referenceTextLong = refValue, referenceTextLongLen = refValueLen\<rparr>))"

text \<open>\<open>horizontalKeyInfo\<close> (svg.go:534-541). The width and the position of the key are
  computed from the reference position and can be infinite or NaN with it.\<close>

record horizontalKeyInfo =
  referenceTextLeft :: string
  referenceTextLeftLen :: real
  referenceTextRight :: string
  referenceTextRightLen :: real
  keyWidth :: float64
  keyX :: float64

text \<open>
  The two overflow measures of \<open>getHorizontalKeyInfo\<close> (svg.go:556-577): \<open>left\<close> and
  \<open>right\<close> start as half the width of the outermost tick labels and grow to the part of
  the reference text that passes the end of the key, with the tick at \<open>refPos\<close> and the key
  \<open>width\<close> wide.
\<close>

definition leftOverflow :: "float64 \<Rightarrow> float64 \<Rightarrow> real \<Rightarrow> float64" where
  "leftOverflow left refPos textLeftLen =
     (if flt (fsub refPos (Finite textLeftLen)) (fsub (Finite 0) left)
      then fabs (fsub refPos (Finite textLeftLen)) else left)"

definition rightOverflow :: "float64 \<Rightarrow> float64 \<Rightarrow> real \<Rightarrow> float64 \<Rightarrow> float64" where
  "rightOverflow right refPos textRightLen width =
     (if fgt (fsub (fadd refPos (Finite textRightLen)) width) right
      then fsub (fadd refPos (Finite textRightLen)) width else right)"

text \<open>\<open>getHorizontalKeyInfo\<close> (svg.go:545-585). The source puts the longer reference text
  on the left and then swaps the two when the reference position is below 0.5; the model
  makes the same choice in one step.\<close>

definition getHorizontalKeyInfo ::
  "externals \<Rightarrow> real \<Rightarrow> SVGRequest \<Rightarrow> panic + horizontalKeyInfo" where
  "getHorizontalKeyInfo ext svgWidth svgRequest =
     (let req = request svgRequest in
      andThen (getHorizontalRefTextInfo ext req) (\<lambda>refInfo.
      let width = svgWidth * (9 / 10);
          x = (svgWidth - width) / 2;
          bs = breaks svgRequest in
      andThen (index bs 0) (\<lambda>b0.
      let left = GetApproximateTextWidth ext (sprint_g ext (Finite (bi_LowerBound b0)))
                   (FontSize req) / 2 in
      andThen (index bs (int (length bs) - 1)) (\<lambda>bl.
      let right = GetApproximateTextWidth ext (sprint_g ext (Finite (bi_UpperBound bl)))
                    (FontSize req) / 2;
          info = (if flt (referencePos svgRequest) (Finite (1 / 2))
                  then \<lparr>referenceTextLeft = referenceTextShort refInfo,
                        referenceTextLeftLen = referenceTextShortLen refInfo,
                        referenceTextRight = referenceTextLong refInfo,
                        referenceTextRightLen = referenceTextLongLen refInfo,
                        keyWidth = Finite width, keyX = Finite x\<rparr>
                  else \<lparr>referenceTextLeft = referenceTextLong refInfo,
                        referenceTextLeftLen = referenceTextLongLen refInfo,
                        referenceTextRight = referenceTextShort refInfo,
                        referenceTextRightLen = referenceTextShortLen refInfo,
                        keyWidth = Finite width, keyX = Finite x\<rparr>);
          refPos = fmul (keyWidth info) (referencePos svgRequest);
          left = leftOverflow (Finite left) refPos (referenceTextLeftLen info);
          right = rightOverflow (Finite right) refPos (referenceTextRightLen info) (keyWidth info)
      in Inr (if fgt (fadd (fadd (keyWidth info) left) right) (Finite svgWidth)
              then info\<lparr>keyWidth := fsub (Finite svgWidth) (fadd left right), keyX := left\<rparr>
              else info)))))"
section \<open>Writing the legends\<close>

text \<open>
  The \<open>write...\<close> functions of \<open>svg.go\<close> append to a \<open>bytes.Buffer\<close>; in the model each
  takes the contents of the buffer and returns the new contents.
\<close>

text \<open>\<open>writeHorizontalKeyTitle\<close> (svg.go:429-437).\<close>

definition writeHorizontalKeyTitle ::
  \<open>externals \<Rightarrow> RenderRequest \<Rightarrow> real \<Rightarrow> string \<Rightarrow> panic + string\<close> where
  \<open>writeHorizontalKeyTitle ext req svgWidth content =
     andThen (deref (Choropleth req)) (\<lambda>choropleth.
     let titleText = ValuePrefix choropleth @ '' '' @ ValueSuffix choropleth;
         titleTextLen = GetApproximateTextWidth ext titleText (FontSize req);
         textAdjust = (if titleTextLen \<ge> svgWidth
                       then '' textLength="'' @ sprint_f0 ext (Finite (svgWidth - 2))
                            @ ''" lengthAdjust="spacingAndGlyphs"''
                       else [])
     in Inr (content @ ''<text x="'' @ sprint_f ext (Finite (svgWidth / 2))
               @ ''" y="6" dy=".5em" style="text-anchor: middle;" class="keyText"'' @ textAdjust
               @ ''>'' @ titleText @ ''</text>''))\<close>

text \<open>\<open>writeHorizontalKeyTick\<close> (svg.go:440-445).\<close>

definition writeHorizontalKeyTick :: \<open>externals \<Rightarrow> string \<Rightarrow> float64 \<Rightarrow> real \<Rightarrow> string\<close> where
  \<open>writeHorizontalKeyTick ext w xPos v =
     w @ ''<g class="map__tick" transform="translate('' @ sprint_f ext xPos @ '', 0)">''
       @ ''<line x2="0" y2="15" style="stroke-width: 1; stroke: Black;"></line>''
       @ ''<text x="0" y="18" dy=".74em" style="text-anchor: middle;" class="keyText">''
       @ sprint_g ext (Finite v) @ ''</text>''
       @ ''</g>''\<close>

text \<open>\<open>writeVerticalKeyTick\<close> (svg.go:448-453).\<close>

definition writeVerticalKeyTick :: \<open>externals \<Rightarrow> string \<Rightarrow> float64 \<Rightarrow> real \<Rightarrow> string\<close> where
  \<open>writeVerticalKeyTick ext w yPos v =
     w @ ''<g class="map__tick" transform="translate(0, '' @ sprint_f ext yPos @ '')">''
       @ ''<line x1="8" x2="-15" style="stroke-width: 1; stroke: Black;"></line>''
       @ ''<text x="-18" y="0" dy="0.32em" style="text-anchor: end;" class="keyText">''
       @ sprint_g ext (Finite v) @ ''</text>''
       @ ''</g>''\<close>

text \<open>The two \<open>textLength\<close> attributes of \<open>writeHorizontalKeyRefTick\<close> (svg.go:461-469):
  a reference text longer than the room on its side of the tick is squeezed into it.
  \<open>refTextLengthLeft\<close> and \<open>refTextLengthRight\<close> are the lengths the two conditions
  choose, if any, and \<open>textLengthAttr\<close> is the attribute written for them.\<close>

definition refTextLengthLeft :: "horizontalKeyInfo \<Rightarrow> float64 \<Rightarrow> float64 option" where
  "refTextLengthLeft keyInfo xPos =
     (if fgt (Finite (referenceTextLeftLen keyInfo)) (fadd xPos (keyX keyInfo))
      then Some (fsub (fadd xPos (keyX keyInfo)) (Finite 1)) else None)"

definition refTextLengthRight :: "horizontalKeyInfo \<Rightarrow> float64 \<Rightarrow> real \<Rightarrow> float64 option" where
  "refTextLengthRight keyInfo xPos svgWidth =
     (if fgt (Finite (referenceTextRightLen keyInfo))
             (fsub (Finite svgWidth) (fadd xPos (keyX keyInfo)))
      then Some (fsub (fsub (Finite svgWidth) (fadd xPos (keyX keyInfo))) (Finite 2)) else None)"

definition textLengthAttr :: \<open>externals \<Rightarrow> float64 option \<Rightarrow> string\<close> where
  \<open>textLengthAttr ext l =
     (case l of
        None \<Rightarrow> []
      | Some len \<Rightarrow> '' textLength="'' @ sprint_f0 ext len @ ''" lengthAdjust="spacingAndGlyphs"'')\<close>



text \<open>\<open>writeHorizontalKeyRefTick\<close> (svg.go:456-472).\<close>

definition writeHorizontalKeyRefTick ::
  \<open>externals \<Rightarrow> string \<Rightarrow> horizontalKeyInfo \<Rightarrow> SVGRequest \<Rightarrow> string\<close> where
  \<open>writeHorizontalKeyRefTick ext w keyInfo svgRequest =
     (let xPos = fmul (keyWidth keyInfo) (referencePos svgRequest);
          svgWidth = ViewBoxWidth svgRequest
      in w @ ''<g class="map__tick" transform="translate('' @ sprint_f ext xPos @ '', 0)">''
           @ ''<line x2="0" y1="8" y2="45" style="stroke-width: 1; stroke: DimGrey;"></line>''
           @ ''<text x="0" y="33" dx="-0.1em" dy=".74em" style="text-anchor: end; fill: DimGrey;" class="keyText"''
           @ textLengthAttr ext (refTextLengthLeft keyInfo xPos) @ ''>'' @ referenceTextLeft keyInfo @ ''</text>''
           @ ''<text x="0" y="33" dx="0.1em" dy=".74em" style="text-anchor: start; fill: DimGrey;" class="keyText"''
           @ textLengthAttr ext (refTextLengthRight keyInfo xPos svgWidth) @ ''>'' @ referenceTextRight keyInfo
           @ ''</text>''
           @ ''</g>'')\<close>

text \<open>\<open>writeVerticalKeyRefTick\<close> (svg.go:475-483).\<close>

definition writeVerticalKeyRefTick ::
  \<open>externals \<Rightarrow> string \<Rightarrow> float64 \<Rightarrow> RenderRequest \<Rightarrow> panic + string\<close> where
  \<open>writeVerticalKeyRefTick ext w yPos req =
     andThen (deref (Choropleth req)) (\<lambda>choropleth.
     let textLen = GetApproximateTextWidth ext (ReferenceValueText choropleth) (FontSize req)
     in Inr (w @ ''<g class="map__tick" transform="translate(0, '' @ sprint_f ext yPos @ '')">''
               @ ''<line x2="45" x1="8" style="stroke-width: 1; stroke: DimGrey;"></line>''
               @ ''<text x="18" dy="-.32em" style="text-anchor: start; fill: DimGrey;" class="keyText" textLength="''
               @ sprint_f0 ext (Finite textLen) @ ''" lengthAdjust="spacingAndGlyphs">''
               @ ReferenceValueText choropleth @ ''</text>''
               @ ''<text x="18" dy="1em" style="text-anchor: start; fill: DimGrey;" class="keyText">''
               @ sprint_g ext (Finite (ReferenceValue choropleth)) @ ''</text>''
               @ ''</g>''))\<close>

text \<open>\<open>writeKeyMissingPattern\<close> (svg.go:486-491).\<close>

definition writeKeyMissingPattern ::
  \<open>externals \<Rightarrow> string \<Rightarrow> string \<Rightarrow> real \<Rightarrow> real \<Rightarrow> int \<Rightarrow> string\<close> where
  \<open>writeKeyMissingPattern ext w ident xPos yPos fontSize =
     w @ ''<g class="missingPattern" transform="translate('' @ sprint_f ext (Finite xPos) @ '', ''
       @ sprint_f ext (Finite yPos) @ '')">''
       @ ''<rect class="keyColour" height="8" width="8" style="stroke-width: 0.8; stroke: black; fill: url(#''
       @ ident @ ''-nodata);"></rect>''
       @ ''<text x="12" dy=".55em" style="text-anchor: start; fill: DimGrey;" class="keyText" textLength="''
       @ sprint_f0 ext (Finite (GetApproximateTextWidth ext MissingDataText fontSize))
       @ ''" lengthAdjust="spacingAndGlyphs">'' @ MissingDataText @ ''</text>''
       @ ''</g>''\<close>

text \<open>\<open>writeVerticalLegendTitle\<close> (svg.go:369-373).\<close>

definition writeVerticalLegendTitle ::
  \<open>externals \<Rightarrow> string \<Rightarrow> real \<Rightarrow> real \<Rightarrow> RenderRequest \<Rightarrow> panic + string\<close> where
  \<open>writeVerticalLegendTitle ext content legendWidth svgHeight req =
     andThen (deref (Choropleth req)) (\<lambda>choropleth.
     let titleText = ValuePrefix choropleth @ '' '' @ ValueSuffix choropleth;
         textLen = GetApproximateTextWidth ext titleText (FontSize req)
     in Inr (content @ ''<text x="'' @ sprint_f ext (Finite (legendWidth / 2)) @ ''" y="''
               @ sprint_f ext (Finite (svgHeight * (5 / 100)))
               @ ''" dy=".5em" style="text-anchor: middle;" class="keyText" textLength="''
               @ sprint_f0 ext (Finite textLen) @ ''" lengthAdjust="spacingAndGlyphs">'' @ titleText
               @ ''</text>''))\<close>

text \<open>The loop of \<open>RenderHorizontalKey\<close> (svg.go:284-290); its state is the two buffers
  and \<open>left\<close>.\<close>

fun horizontalKeyRects ::
  \<open>externals \<Rightarrow> float64 \<Rightarrow> breakInfo list \<Rightarrow> string \<times> string \<times> float64
     \<Rightarrow> string \<times> string \<times> float64\<close> where
  \<open>horizontalKeyRects ext width [] state = state\<close>
| \<open>horizontalKeyRects ext width (b # bs) (content, ticks, left) =
     (let w = fmul (bi_RelativeSize b) width;
          content = content @ ''<rect class="keyColour" height="8" width="'' @ sprint_f ext w
                      @ ''" x="'' @ sprint_f ext left
                      @ ''" style="stroke-width: 0.5; stroke: black; fill: '' @ bi_Colour b @ '';">''
                      @ ''</rect>'';
          ticks = writeHorizontalKeyTick ext ticks left (bi_LowerBound b)
      in horizontalKeyRects ext width bs (content, ticks, fadd left w))\<close>

text \<open>\<open>RenderHorizontalKey\<close> (svg.go:253-305).\<close>

definition RenderHorizontalKey :: \<open>externals \<Rightarrow> SVGRequest \<Rightarrow> panic + string\<close> where
  \<open>RenderHorizontalKey ext svgRequest =
     (case geoJSON svgRequest of
        None \<Rightarrow> Inr []
      | Some features \<Rightarrow>
         (let req = request svgRequest in
          andThen (getHorizontalKeyInfo ext (ViewBoxWidth svgRequest) svgRequest) (\<lambda>keyInfo.
          let ident = idPrefix ext req;
              missingId = ident @ ''-horizontal'';
              content = ''<defs>'' @ MissingDataPattern missingId @ ''</defs>'';
              keyClass = getKeyClass req ''horizontal'';
              vbHeight = 90;
              svgAttributes = ''id="'' @ ident @ ''-legend-horizontal-svg" class="'' @ keyClass
                                @ ''" viewBox="0 0 '' @ sprint_f0 ext (Finite (ViewBoxWidth svgRequest))
                                @ '' '' @ sprint_f0 ext (Finite vbHeight) @ ''"''
                                @ sizeAttributes ext (responsiveSize svgRequest)
                                    (ViewBoxWidth svgRequest) vbHeight;
              content = content @ ''<g id="'' @ ident @ ''-legend-horizontal-container">'' in
          andThen (writeHorizontalKeyTitle ext req (ViewBoxWidth svgRequest) content) (\<lambda>content.
          let content = content @ ''<g id="'' @ ident
                          @ ''-legend-horizontal-key" transform="translate(''
                          @ sprint_f ext (keyX keyInfo) @ '', 20)">'';
              bs = breaks svgRequest;
              (content, ticks, left) = horizontalKeyRects ext (keyWidth keyInfo) bs
                                       (content, [], Finite 0) in
          andThen (index bs (int (length bs) - 1)) (\<lambda>bl.
          let ticks = writeHorizontalKeyTick ext ticks left (bi_UpperBound bl) in
          andThen (deref (Choropleth req)) (\<lambda>choropleth.
          let ticks = (if length (ReferenceValueText choropleth) > 0
                       then writeHorizontalKeyRefTick ext ticks keyInfo svgRequest else ticks);
              content = content @ ticks;
              content = writeKeyMissingPattern ext content missingId 0 55 (FontSize req);
              content = content @ ''</g></g>''
          in Inr (finishSVG ext req svgAttributes content (ViewBoxWidth svgRequest) vbHeight)))))))\<close>

section \<open>The vertical legend\<close>

text \<open>The loop of \<open>RenderVerticalKey\<close> (svg.go:343-350); its state is the two buffers
  and \<open>position\<close>.\<close>

fun verticalKeyRects ::
  \<open>externals \<Rightarrow> real \<Rightarrow> breakInfo list \<Rightarrow> string \<times> string \<times> float64
     \<Rightarrow> string \<times> string \<times> float64\<close> where
  \<open>verticalKeyRects ext keyHeight [] state = state\<close>
| \<open>verticalKeyRects ext keyHeight (b # bs) (content, ticks, position) =
     (let height = fmul (bi_RelativeSize b) (Finite keyHeight);
          adjustedPosition = fsub (Finite keyHeight) position;
          content = content @ ''<rect class="keyColour" height="'' @ sprint_f ext height
                      @ ''" width="8" y="'' @ sprint_f ext (fsub adjustedPosition height)
                      @ ''" style="stroke-width: 0.5; stroke: black; fill: '' @ bi_Colour b @ '';">''
                      @ ''</rect>'';
          ticks = writeVerticalKeyTick ext ticks adjustedPosition (bi_LowerBound b)
      in verticalKeyRects ext keyHeight bs (content, ticks, fadd position height))\<close>

text \<open>\<open>RenderVerticalKey\<close> (svg.go:308-367).\<close>

definition RenderVerticalKey :: \<open>externals \<Rightarrow> SVGRequest \<Rightarrow> panic + string\<close> where
  \<open>RenderVerticalKey ext svgRequest =
     (case geoJSON svgRequest of
        None \<Rightarrow> Inr []
      | Some features \<Rightarrow>
         (let req = request svgRequest;
              svgHeight = ViewBoxHeight svgRequest;
              bs = breaks svgRequest;
              keyHeight = svgHeight * (8 / 10);
              legendWidth = VerticalLegendWidth svgRequest;
              offset = verticalKeyOffset svgRequest;
              ident = idPrefix ext req;
              missingId = ident @ ''-vertical'';
              content = ''<defs>'' @ MissingDataPattern missingId @ ''</defs>'';
              keyClass = getKeyClass req ''vertical'';
              attributes = ''id="'' @ ident @ ''-legend-vertical-svg" class="'' @ keyClass
                             @ ''" viewBox="0 0 '' @ sprint_f0 ext (Finite legendWidth)
                             @ '' '' @ sprint_f0 ext (Finite svgHeight) @ ''"''
                             @ sizeAttributes ext (responsiveSize svgRequest) legendWidth svgHeight;
              content = content @ ''<g id="'' @ ident @ ''-legend-vertical-container">'' in
          andThen (writeVerticalLegendTitle ext content legendWidth svgHeight req) (\<lambda>content.
          let content = content @ ''<g id="'' @ ident
                          @ ''-legend-vertical-key" transform="translate(''
                          @ sprint_f ext (Finite ((legendWidth + offset) / 2)) @ '', ''
                          @ sprint_f ext (Finite (svgHeight * (1 / 10))) @ '')">'';
              (content, ticks, position) = verticalKeyRects ext keyHeight bs
                                           (content, [], Finite 0) in
          andThen (index bs (int (length bs) - 1)) (\<lambda>bl.
          let ticks = writeVerticalKeyTick ext ticks (fsub (Finite keyHeight) position)
                        (bi_UpperBound bl) in
          andThen (deref (Choropleth req)) (\<lambda>choropleth.
          andThen (if length (ReferenceValueText choropleth) > 0
                   then writeVerticalKeyRefTick ext ticks
                          (fsub (Finite keyHeight)
                                (fmul (Finite keyHeight) (referencePos svgRequest))) req
                   else Inr ticks) (\<lambda>ticks.
          let content = content @ ticks;
              content = content @ ''</g>'';
              xPos = (legendWidth
                        - (GetApproximateTextWidth ext MissingDataText (FontSize req) + 12)) / 2;
              content = writeKeyMissingPattern ext content missingId xPos
                          (svgHeight * (95 / 100)) (FontSize req);
              content = content @ ''</g>''
          in Inr (finishSVG ext req attributes content legendWidth svgHeight)))))))\<close>

section \<open>The width policy as the specification words it\<close>

text \<open>
  Section 4.2 of the specification: explicit fixed width if it is positive; else the
  average of the minimum and maximum width if both are positive; else 400. This
  definition follows the specification, not the code; \<open>getViewBoxDimensions\<close> above is the
  code.
\<close>

definition specifiedWidth :: "RenderRequest \<Rightarrow> real" where
  "specifiedWidth req =
     (if DefaultWidth req > 0 then DefaultWidth req
      else if MinWidth req > 0 \<and> MaxWidth req > 0 then (MinWidth req + MaxWidth req) / 2
      else 400)"

section \<open>Concrete collaborators and requests\<close>

text \<open>
  Stand-ins for the collaborators, for evaluating the model at concrete inputs: the
  decoder yields one feature for every named object, every character is 7 units wide,
  the drawing library draws one empty path, and the formatting verbs print the integer
  part of a finite number in decimal, which is what Go prints for the integers used in
  the examples (\<open>%f\<close> adds six decimals), and \<open>+Inf\<close>, \<open>-Inf\<close> and \<open>NaN\<close> as Go does. No
  general theorem below depends on them.
\<close>

function decimal :: "nat \<Rightarrow> string" where
  "decimal n = (if n < 10 then [''0123456789'' ! n]
                else decimal (n div 10) @ [''0123456789'' ! (n mod 10)])"
  by pat_completeness auto
termination
  by (relation "measure (\<lambda>n. n)") auto

declare decimal.simps [simp del]

definition showInteger :: "real \<Rightarrow> string" where
  "showInteger x = (if x < 0 then ''-'' @ decimal (nat \<lfloor>- x\<rfloor>) else decimal (nat \<lfloor>x\<rfloor>))"

fun showFloat :: "float64 \<Rightarrow> string" where
  "showFloat (Finite x) = showInteger x"
| "showFloat PosInf = ''+Inf''"
| "showFloat NegInf = ''-Inf''"
| "showFloat NaN = ''NaN''"

definition sampleExternals :: externals where
  "sampleExternals =
     \<lparr>ToGeoJSON = (\<lambda>t. map (\<lambda>n. \<lparr>FeatureID = JString n, Properties = Map.empty\<rparr>) (Objects t)),
      GetHeightForWidth = (\<lambda>features w. w),
      DrawFeatures = (\<lambda>features w h opts. ''<path></path>''),
      GetApproximateTextWidth = (\<lambda>s fontSize. 7 * real (length s)),
      idPrefix = Filename,
      mapID = (\<lambda>req. Filename req @ ''-map''),
      sprint_g = showFloat,
      sprint_f = (\<lambda>x. case x of Finite a \<Rightarrow> showInteger a @ ''.000000'' | _ \<Rightarrow> showFloat x),
      sprint_f0 = showFloat,
      pngConverter = None\<rparr>"

definition sampleGeography :: Geography where
  "sampleGeography =
     \<lparr>Topojson = Some \<lparr>Arcs = [[[0, 0], [1, 1]]], Objects = [''E01'']\<rparr>,
      IDProperty = ''code'', NameProperty = ''name''\<rparr>"

definition sampleChoropleth :: "ChoroplethBreak list \<Rightarrow> Choropleth" where
  "sampleChoropleth bs =
     \<lparr>ReferenceValue = 50, ReferenceValueText = ''average'', ValuePrefix = ''GBP'',
      ValueSuffix = ''m'', Breaks = bs, UpperBound = 100,
      HorizontalLegendPosition = LegendPositionAfter,
      VerticalLegendPosition = LegendPositionNone\<rparr>"

definition sampleRequest ::
  "Geography option \<Rightarrow> DataRow list option \<Rightarrow> Choropleth option \<Rightarrow> RenderRequest" where
  "sampleRequest g d c =
     \<lparr>Filename = ''map1'', Geography = g, Data = d, Choropleth = c, DefaultWidth = 0,
      MinWidth = 0, MaxWidth = 0, IncludeFallbackPng = False, FontSize = 14\<rparr>"

definition sampleBreaks :: "ChoroplethBreak list" where
  "sampleBreaks = [\<lparr>LowerBound = 0, Colour = ''red''\<rparr>, \<lparr>LowerBound = 50, Colour = ''blue''\<rparr>]"

text \<open>Two regions as \<open>setFeatureIDs\<close> leaves them, with the prefix of the request in
  their ids.\<close>

definition sampleFeatures :: "Feature list" where
  "sampleFeatures =
     [\<lparr>FeatureID = JString ''map1-E01'', Properties = [''name'' \<mapsto> JString ''Leeds'']\<rparr>,
      \<lparr>FeatureID = JString ''map1-E02'', Properties = [''name'' \<mapsto> JString ''York'']\<rparr>]"











section \<open>Evaluating the decimal printer\<close>

lemma decimal_numeral:
  "decimal (numeral k) = (if numeral k < (10::nat) then [''0123456789'' ! numeral k]
                else decimal (numeral k div 10) @ [''0123456789'' ! (numeral k mod 10)])"
  by (rule decimal.simps)

lemma decimal_small: "decimal 0 = ''0''" "decimal 1 = ''1''" "decimal (Suc 0) = ''1''"
  by (simp_all add: decimal.simps)

section \<open>Basic facts about panics and indexing\<close>

lemma index_Nil: "index [] i = Inl IndexOutOfRange"
  by (simp add: index_def)

lemma andThen_Inl: "andThen (Inl p) f = Inl p"
  by (simp add: andThen_def)

lemma andThen_Inr: "andThen (Inr x) f = f x"
  by (simp add: andThen_def)

lemma index_last: "xs \<noteq> [] \<Longrightarrow> index xs (int (length xs) - 1) = Inr (last xs)"
  by (cases xs rule: rev_cases) (simp_all add: index_def nth_append)

lemma index_first: "xs \<noteq> [] \<Longrightarrow> index xs 0 = Inr (hd xs)"
  by (cases xs) (simp_all add: index_def)

section \<open>The colour of a value\<close>

lemma getColour_loop_find:
  "getColour_loop v bs = map_option Colour (find (\<lambda>b. LowerBound b \<le> v) bs)"
  by (induction bs) simp_all

lemma last_lowest:
  "sorted_wrt (\<lambda>a b. LowerBound a \<ge> LowerBound b) bs \<Longrightarrow> b \<in> set bs
     \<Longrightarrow> LowerBound (last bs) \<le> LowerBound b"
  by (induction bs) auto

lemma find_boundary:
  assumes "sorted_wrt (\<lambda>a b. LowerBound a \<ge> LowerBound b) bs"
    and "b \<in> set bs" and "LowerBound b = v"
  shows "\<exists>b'\<in>set bs. LowerBound b' = v \<and> find (\<lambda>x. LowerBound x \<le> v) bs = Some b'"
  using assms
proof (induction bs)
  case Nil
  then show ?case by simp
next
  case (Cons a bs)
  show ?case
  proof (cases "LowerBound a \<le> v")
    case True
    have "LowerBound a \<ge> LowerBound b" using Cons.prems by auto
    with True Cons.prems(3) have "LowerBound a = v" by simp
    with True show ?thesis by simp
  next
    case False
    with Cons.prems have "b \<in> set bs" by auto
    with Cons False show ?thesis by auto
  qed
qed

text \<open>
  Claim C1. For a non-empty sequence of breaks sorted descending by lower bound and any
  value \<open>v\<close>, \<open>getColour\<close> returns the colour of the first break, scanning from the highest
  lower bound down, whose lower bound is at most \<open>v\<close>, and the colour of the last break
  when there is none. The last break is the one with the lowest lower bound, so a value
  below every lower bound gets its colour. A value equal to the lower bound of a break
  gets the colour of a break with exactly that lower bound, not of one further down.
\<close>

theorem getColour_first_qualifying_break:
  assumes "bs \<noteq> []" and "sorted_wrt (\<lambda>a b. LowerBound a \<ge> LowerBound b) bs"
  shows "getColour v bs =
           Inr (case find (\<lambda>b. LowerBound b \<le> v) bs of
                  Some b \<Rightarrow> Colour b | None \<Rightarrow> Colour (last bs))
         \<and> (\<forall>b\<in>set bs. LowerBound (last bs) \<le> LowerBound b)
         \<and> ((\<forall>b\<in>set bs. v < LowerBound b) \<longrightarrow> getColour v bs = Inr (Colour (last bs)))
         \<and> (\<forall>b\<in>set bs. LowerBound b = v \<longrightarrow>
               (\<exists>b'\<in>set bs. LowerBound b' = v \<and> getColour v bs = Inr (Colour b')))"
proof -
  have main: "getColour v bs =
           Inr (case find (\<lambda>b. LowerBound b \<le> v) bs of
                  Some b \<Rightarrow> Colour b | None \<Rightarrow> Colour (last bs))"
    using assms(1)
    by (simp add: getColour_def getColour_loop_find index_last andThen_def split: option.splits)
  have low: "\<forall>b\<in>set bs. LowerBound (last bs) \<le> LowerBound b"
    using last_lowest [OF assms(2)] by blast
  have below: "(\<forall>b\<in>set bs. v < LowerBound b) \<longrightarrow> getColour v bs = Inr (Colour (last bs))"
  proof
    assume a: "\<forall>b\<in>set bs. v < LowerBound b"
    have "find (\<lambda>b. LowerBound b \<le> v) bs = None"
      using a by (auto simp: find_None_iff)
    with main show "getColour v bs = Inr (Colour (last bs))" by simp
  qed
  have bnd: "\<forall>b\<in>set bs. LowerBound b = v \<longrightarrow>
               (\<exists>b'\<in>set bs. LowerBound b' = v \<and> getColour v bs = Inr (Colour b'))"
  proof (intro ballI impI)
    fix b assume "b \<in> set bs" "LowerBound b = v"
    from find_boundary [OF assms(2) this] obtain b' where
      "b' \<in> set bs" "LowerBound b' = v" "find (\<lambda>x. LowerBound x \<le> v) bs = Some b'" by blast
    with main show "\<exists>b'\<in>set bs. LowerBound b' = v \<and> getColour v bs = Inr (Colour b')"
      by auto
  qed
  from main low below bnd show ?thesis by blast
qed

text \<open>Three breaks at 20, 10 and 0: the value 10 is green, the value -5 is blue.\<close>

theorem getColour_first_qualifying_break_witness:
  "sorted_wrt (\<lambda>a b. LowerBound a \<ge> LowerBound b)
     [\<lparr>LowerBound = 20, Colour = ''red''\<rparr>, \<lparr>LowerBound = 10, Colour = ''green''\<rparr>,
      \<lparr>LowerBound = 0, Colour = ''blue''\<rparr>]
   \<and> getColour 10 [\<lparr>LowerBound = 20, Colour = ''red''\<rparr>, \<lparr>LowerBound = 10, Colour = ''green''\<rparr>,
                    \<lparr>LowerBound = 0, Colour = ''blue''\<rparr>] = Inr ''green''
   \<and> getColour (-5) [\<lparr>LowerBound = 20, Colour = ''red''\<rparr>, \<lparr>LowerBound = 10, Colour = ''green''\<rparr>,
                      \<lparr>LowerBound = 0, Colour = ''blue''\<rparr>] = Inr ''blue''"
  using getColour_first_qualifying_break
          [of "[\<lparr>LowerBound = 20, Colour = ''red''\<rparr>, \<lparr>LowerBound = 10, Colour = ''green''\<rparr>,
                \<lparr>LowerBound = 0, Colour = ''blue''\<rparr>]" 10]
        getColour_first_qualifying_break
          [of "[\<lparr>LowerBound = 20, Colour = ''red''\<rparr>, \<lparr>LowerBound = 10, Colour = ''green''\<rparr>,
                \<lparr>LowerBound = 0, Colour = ''blue''\<rparr>]" "-5"]
  by simp

section \<open>Preparing a request\<close>

lemma getSortedBreakInfo_no_data:
  assumes "Choropleth req = Some c" and "elems (Data req) = []"
  shows "getSortedBreakInfo req = Inl IndexOutOfRange"
  using assms by (simp add: getSortedBreakInfo_def deref_def andThen_Inl andThen_Inr index_Nil)

text \<open>
  Claim C10. \<open>getSortedBreakInfo\<close> reads \<open>data[0]\<close> with no check that there is a row, and
  \<open>PrepareSVGRequest\<close> calls it whenever the choropleth has a break: for a request with
  breaks and no data row the index is out of range, in \<open>getSortedBreakInfo\<close> and so in
  \<open>PrepareSVGRequest\<close>. Preparation can only succeed on such a request if it carries a row.
\<close>

theorem prepare_panics_on_empty_data:
  assumes "Choropleth req = Some c" and "Breaks c \<noteq> []" and "elems (Data req) = []"
  shows "getSortedBreakInfo req = Inl IndexOutOfRange
         \<and> PrepareSVGRequest ext req = Inl IndexOutOfRange"
proof -
  have g: "getSortedBreakInfo req = Inl IndexOutOfRange"
    using assms(1,3) by (rule getSortedBreakInfo_no_data)
  have "PrepareSVGRequest ext req = Inl IndexOutOfRange"
    using assms(1,2) by (simp add: PrepareSVGRequest_def g andThen_Inl split: prod.splits)
  with g show ?thesis by simp
qed

text \<open>Two breaks and an empty, non-nil data slice.\<close>

theorem prepare_panics_on_empty_data_witness:
  "Breaks (sampleChoropleth [\<lparr>LowerBound = 0, Colour = ''red''\<rparr>,
                             \<lparr>LowerBound = 10, Colour = ''blue''\<rparr>]) \<noteq> []
   \<and> elems (Some ([] :: DataRow list)) = []
   \<and> PrepareSVGRequest sampleExternals
        (sampleRequest None (Some [])
           (Some (sampleChoropleth [\<lparr>LowerBound = 0, Colour = ''red''\<rparr>,
                                    \<lparr>LowerBound = 10, Colour = ''blue''\<rparr>])))
     = Inl IndexOutOfRange"
  using prepare_panics_on_empty_data
          [of "sampleRequest None (Some [])
                 (Some (sampleChoropleth [\<lparr>LowerBound = 0, Colour = ''red''\<rparr>,
                                          \<lparr>LowerBound = 10, Colour = ''blue''\<rparr>]))"
              "sampleChoropleth [\<lparr>LowerBound = 0, Colour = ''red''\<rparr>,
                                 \<lparr>LowerBound = 10, Colour = ''blue''\<rparr>]"
              sampleExternals]
  by (simp add: sampleRequest_def sampleChoropleth_def elems_def)

text \<open>
  With two or more breaks and a data row the function returns one entry for every
  break, and whenever the total range, the upper bound of the last entry less the lower
  bound of the first, is not zero, the relative sizes are finite numbers that sum to 1 in
  exact arithmetic.
\<close>

lemma setRelativeSizes_Some:
  "setRelativeSizes t (map Some ys) = Inr (map (setRelativeSize t) ys)"
  by (induction ys) (simp_all add: andThen_Inr)

lemma length_pairBreaks: "length (pairBreaks s) = length s - 1"
  by (induction s rule: pairBreaks.induct) simp_all

lemma pairBreaks_sum:
  "2 \<le> length s \<Longrightarrow>
   (\<Sum>b\<leftarrow>pairBreaks s. bi_UpperBound b - bi_LowerBound b) = LowerBound (last s) - LowerBound (hd s)"
proof (induction s rule: pairBreaks.induct)
  case (1 b b' bs)
  show ?case
  proof (cases bs)
    case Nil
    then show ?thesis by simp
  next
    case (Cons c cs)
    with 1 show ?thesis by simp
  qed
qed simp_all

lemma relative_sizes_finite:
  "t \<noteq> 0 \<Longrightarrow>
   map bi_RelativeSize (map (setRelativeSize t) ys)
     = map Finite (map (\<lambda>b. (bi_UpperBound b - bi_LowerBound b) / t) ys)"
  by (induction ys) (simp_all add: setRelativeSize_def divide64_def)

lemma relative_size_sum:
  "(\<Sum>b\<leftarrow>ys. (bi_UpperBound b - bi_LowerBound b) / t)
     = (\<Sum>b\<leftarrow>ys. bi_UpperBound b - bi_LowerBound b) / t"
  by (induction ys) (simp_all add: add_divide_distrib)

lemma fill_last:
  "(map Some ps @ [None])[length ps := Some f] = map Some ps @ [Some f]"
  by (induction ps) simp_all

lemma getSortedBreakInfo_two_or_more:
  assumes "Choropleth req = Some c" and "2 \<le> length (Breaks c)" and "elems (Data req) \<noteq> []"
  shows "\<exists>info pos. getSortedBreakInfo req = Inr (info, pos)
           \<and> length info = length (Breaks c)
           \<and> (bi_UpperBound (last info) \<noteq> bi_LowerBound (hd info)
                 \<longrightarrow> (\<exists>sizes. map bi_RelativeSize info = map Finite sizes
                               \<and> sum_list sizes = 1))"
proof -
  let ?data = "sort_key Value (elems (Data req))"
  let ?s = "sortBreaks (Breaks c) True"
  have ls: "length ?s = length (Breaks c)" by (simp add: sortBreaks_def)
  with assms(2) have s2: "2 \<le> length ?s" by simp
  then have sne: "?s \<noteq> []" by auto
  have dne: "?data \<noteq> []" using assms(3)
    by (metis length_sort length_0_conv)
  obtain p ps where p: "pairBreaks ?s = p # ps"
    using s2 length_pairBreaks [of ?s] by (cases "pairBreaks ?s") auto
  have pl: "bi_LowerBound p = LowerBound (hd ?s)"
    using p by (cases ?s rule: pairBreaks.cases) auto
  let ?lo = "min (Value (hd ?data)) (LowerBound (hd ?s))"
  let ?hi = "if UpperBound c < LowerBound (last ?s) then Value (last ?data) else UpperBound c"
  let ?final = "\<lparr>bi_LowerBound = LowerBound (last ?s), bi_UpperBound = ?hi,
                  bi_RelativeSize = Finite 0, bi_Colour = Colour (last ?s)\<rparr>"
  let ?ys = "p\<lparr>bi_LowerBound := ?lo\<rparr> # ps @ [?final]"
  have len: "length ps = length ?s - 2"
    using length_pairBreaks [of ?s] p by simp
  have upd: "(map Some (pairBreaks ?s) @ [None])[0 := Some (p\<lparr>bi_LowerBound := ?lo\<rparr>),
               length ?s - 1 := Some ?final] = map Some ?ys"
  proof -
    have "length ?s - 1 = Suc (length ps)" using s2 len by simp
    then show ?thesis by (simp add: p fill_last)
  qed
  have i1: "index ?data 0 = Inr (hd ?data)" by (rule index_first [OF dne])
  have i2: "index ?s 0 = Inr (hd ?s)" by (rule index_first [OF sne])
  have i3: "index ?s (int (length ?s) - 1) = Inr (last ?s)" by (rule index_last [OF sne])
  have i4: "index ?data (int (length ?data) - 1) = Inr (last ?data)" by (rule index_last [OF dne])
  have i5: "index (map Some (pairBreaks ?s) @ [None]) 0 = Inr (Some p)"
    by (simp add: p index_def)
  have hi: "(if UpperBound c < LowerBound (last ?s)
             then andThen (index ?data (int (length ?data) - 1)) (\<lambda>dl. Inr (Value dl))
             else Inr (UpperBound c)) = Inr ?hi"
    by (cases "UpperBound c < LowerBound (last ?s)") (simp_all only: i4 andThen_Inr if_True if_False)
  have d: "deref (Some c) = Inr c" "deref (Some p) = Inr p" by (simp_all add: deref_def)
  have run: "getSortedBreakInfo req
        = Inr (map (setRelativeSize (?hi - ?lo)) ?ys,
               divide64 (ReferenceValue c - ?lo) (?hi - ?lo))"
    unfolding getSortedBreakInfo_def Let_def assms(1)
    by (simp only: d andThen_Inr i1 i2 i3 i5 hi upd setRelativeSizes_Some)
  have "(\<Sum>b\<leftarrow>?ys. bi_UpperBound b - bi_LowerBound b) = ?hi - ?lo"
    using pairBreaks_sum [OF s2] pl by (simp add: p)
  then have sum: "(\<Sum>b\<leftarrow>?ys. (bi_UpperBound b - bi_LowerBound b) / (?hi - ?lo))
               = (?hi - ?lo) / (?hi - ?lo)"
    by (simp only: relative_size_sum)
  have ends: "bi_UpperBound (last (map (setRelativeSize (?hi - ?lo)) ?ys)) = ?hi"
    "bi_LowerBound (hd (map (setRelativeSize (?hi - ?lo)) ?ys)) = ?lo"
    by (simp_all add: setRelativeSize_def)
  have "bi_UpperBound (last (map (setRelativeSize (?hi - ?lo)) ?ys))
          \<noteq> bi_LowerBound (hd (map (setRelativeSize (?hi - ?lo)) ?ys))
        \<longrightarrow> (\<exists>sizes. map bi_RelativeSize (map (setRelativeSize (?hi - ?lo)) ?ys)
                             = map Finite sizes
                      \<and> sum_list sizes = 1)"
  proof
    assume "bi_UpperBound (last (map (setRelativeSize (?hi - ?lo)) ?ys))
              \<noteq> bi_LowerBound (hd (map (setRelativeSize (?hi - ?lo)) ?ys))"
    then have ne: "?hi - ?lo \<noteq> 0" unfolding ends by simp
    from sum ne
    have "sum_list (map (\<lambda>b. (bi_UpperBound b - bi_LowerBound b) / (?hi - ?lo)) ?ys) = 1"
      by simp
    with relative_sizes_finite [OF ne, of ?ys]
    show "\<exists>sizes. map bi_RelativeSize (map (setRelativeSize (?hi - ?lo)) ?ys) = map Finite sizes
                  \<and> sum_list sizes = 1"
      by blast
  qed
  moreover have "length (map (setRelativeSize (?hi - ?lo)) ?ys) = length (Breaks c)"
    using len s2 ls by simp
  ultimately show ?thesis using run by blast
qed

text \<open>
  Claim C2. The relative sizes of the break information are to sum to 1 for every request
  with at least one data row and at least one break. With two or more breaks they do
  (\<open>getSortedBreakInfo_two_or_more\<close>). With exactly one break the function does not
  produce any break information: the loop that allocates the entries stops before the
  last one, and the assignment \<open>info[0].LowerBound = minValue\<close> (svg.go:524) comes before
  the last entry is allocated, so it goes through a nil pointer. Evaluated here on one
  break at 5 and one row of value 7; \<open>PrepareSVGRequest\<close> panics with it.
\<close>

theorem getSortedBreakInfo_one_break:
  "getSortedBreakInfo
     (sampleRequest (Some sampleGeography) (Some [\<lparr>ID = ''E01'', Value = 7\<rparr>])
        (Some (sampleChoropleth [\<lparr>LowerBound = 5, Colour = ''red''\<rparr>])))
   = Inl NilPointerDereference
   \<and> PrepareSVGRequest sampleExternals
     (sampleRequest (Some sampleGeography) (Some [\<lparr>ID = ''E01'', Value = 7\<rparr>])
        (Some (sampleChoropleth [\<lparr>LowerBound = 5, Colour = ''red''\<rparr>])))
   = Inl NilPointerDereference"
  by (simp add: PrepareSVGRequest_def getSortedBreakInfo_def sampleRequest_def
                sampleChoropleth_def elems_def sortBreaks_def index_def andThen_def deref_def
           split: prod.splits)

section \<open>The width of the view box\<close>

text \<open>
  Claim C3, as amended. The width chosen by \<open>getViewBoxDimensions\<close> is the fixed width
  if that is positive; otherwise the average of the minimum and the maximum width if the
  average is positive, which it is whenever both are positive; otherwise 400.
\<close>

theorem getViewBoxDimensions_width:
  "fst (getViewBoxDimensions ext svg req) =
     (if DefaultWidth req > 0 then DefaultWidth req
      else if (MinWidth req + MaxWidth req) / 2 > 0 then (MinWidth req + MaxWidth req) / 2
      else 400)
   \<and> (DefaultWidth req \<le> 0 \<and> MinWidth req > 0 \<and> MaxWidth req > 0 \<longrightarrow>
        fst (getViewBoxDimensions ext svg req) = (MinWidth req + MaxWidth req) / 2)"
  by (auto simp: getViewBoxDimensions_def Let_def)

text \<open>No fixed width, minimum 300 and maximum 600: the width is 450.\<close>

theorem getViewBoxDimensions_width_witness:
  "DefaultWidth ((sampleRequest None None None)\<lparr>MinWidth := 300, MaxWidth := 600\<rparr>) \<le> 0
   \<and> fst (getViewBoxDimensions sampleExternals []
          ((sampleRequest None None None)\<lparr>MinWidth := 300, MaxWidth := 600\<rparr>)) = 450"
  using getViewBoxDimensions_width
          [of sampleExternals "[]" "(sampleRequest None None None)\<lparr>MinWidth := 300, MaxWidth := 600\<rparr>"]
  by (simp add: sampleRequest_def)

text \<open>
  The claim as the specification words it fails when only one of the two widths is
  given: with no fixed width, no minimum and a maximum of 600 the code chooses 300, the
  specified policy 400.
\<close>

theorem getViewBoxDimensions_counterexample:
  "fst (getViewBoxDimensions sampleExternals []
          ((sampleRequest None None None)\<lparr>MaxWidth := 600\<rparr>)) = 300
   \<and> specifiedWidth ((sampleRequest None None None)\<lparr>MaxWidth := 600\<rparr>) = 400"
  by (simp add: getViewBoxDimensions_def specifiedWidth_def sampleRequest_def)

section \<open>Degraded requests\<close>

lemma getColour_no_breaks: "getColour v [] = Inl IndexOutOfRange"
  by (simp add: getColour_def index_def andThen_def)

lemma setChoropleth_no_breaks:
  assumes "Choropleth req = Some c" and "Breaks c = []" and "Data req = Some (row # rows)"
  shows "setChoroplethColoursAndTitles ext features req = Inl IndexOutOfRange"
  using assms
  by (simp add: setChoroplethColoursAndTitles_def mapDataToColour_def sortBreaks_def
                getColour_no_breaks andThen_Inl)

lemma RenderSVG_no_breaks:
  assumes "geoJSON sr = Some features" and "Geography (request sr) = Some g"
    and "Choropleth (request sr) = Some c" and "Breaks c = []"
    and "Data (request sr) = Some (row # rows)"
  shows "RenderSVG ext sr = Inl IndexOutOfRange"
  using assms
  by (simp add: RenderSVG_def deref_def andThen_Inr andThen_Inl
                setChoropleth_no_breaks [OF assms(3,4,5)])

text \<open>
  Claim C5. A request with a choropleth that has no break, and with data, is to be
  rendered without failing. \<open>PrepareSVGRequest\<close> skips the break information when there is
  no break, but \<open>RenderSVG\<close> does not: \<open>setChoroplethColoursAndTitles\<close> asks \<open>getColour\<close> for
  the colour of every data row, and with no break \<open>getColour\<close> indexes \<open>breaks[-1]\<close>.
  Evaluated here on a request with one region, one data row and no break: it is prepared,
  and rendering it panics.
\<close>

theorem RenderSVG_zero_breaks:
  "PrepareSVGRequest sampleExternals
     (sampleRequest (Some sampleGeography) (Some [\<lparr>ID = ''E01'', Value = 7\<rparr>])
        (Some (sampleChoropleth [])))
   = Inr \<lparr>request = sampleRequest (Some sampleGeography) (Some [\<lparr>ID = ''E01'', Value = 7\<rparr>])
                        (Some (sampleChoropleth [])),
          geoJSON = Some [\<lparr>FeatureID = JString ''E01'', Properties = Map.empty\<rparr>],
          ViewBoxWidth = 400, ViewBoxHeight = 400, breaks = [], referencePos = Finite 0,
          VerticalLegendWidth = 0, verticalKeyOffset = 0, responsiveSize = False\<rparr>
   \<and> RenderSVG sampleExternals
      \<lparr>request = sampleRequest (Some sampleGeography) (Some [\<lparr>ID = ''E01'', Value = 7\<rparr>])
                        (Some (sampleChoropleth [])),
          geoJSON = Some [\<lparr>FeatureID = JString ''E01'', Properties = Map.empty\<rparr>],
          ViewBoxWidth = 400, ViewBoxHeight = 400, breaks = [], referencePos = Finite 0,
          VerticalLegendWidth = 0, verticalKeyOffset = 0, responsiveSize = False\<rparr>
     = Inl IndexOutOfRange
   \<and> getColour 7 [] = Inl IndexOutOfRange"
proof -
  have a: "PrepareSVGRequest sampleExternals
     (sampleRequest (Some sampleGeography) (Some [\<lparr>ID = ''E01'', Value = 7\<rparr>])
        (Some (sampleChoropleth [])))
   = Inr \<lparr>request = sampleRequest (Some sampleGeography) (Some [\<lparr>ID = ''E01'', Value = 7\<rparr>])
                        (Some (sampleChoropleth [])),
          geoJSON = Some [\<lparr>FeatureID = JString ''E01'', Properties = Map.empty\<rparr>],
          ViewBoxWidth = 400, ViewBoxHeight = 400, breaks = [], referencePos = Finite 0,
          VerticalLegendWidth = 0, verticalKeyOffset = 0, responsiveSize = False\<rparr>"
    by (simp add: PrepareSVGRequest_def getGeoJSON_def getViewBoxDimensions_def sampleRequest_def
                  sampleGeography_def sampleChoropleth_def sampleExternals_def)
  have b: "RenderSVG sampleExternals
      \<lparr>request = sampleRequest (Some sampleGeography) (Some [\<lparr>ID = ''E01'', Value = 7\<rparr>])
                        (Some (sampleChoropleth [])),
          geoJSON = Some [\<lparr>FeatureID = JString ''E01'', Properties = Map.empty\<rparr>],
          ViewBoxWidth = 400, ViewBoxHeight = 400, breaks = [], referencePos = Finite 0,
          VerticalLegendWidth = 0, verticalKeyOffset = 0, responsiveSize = False\<rparr>
     = Inl IndexOutOfRange"
    by (rule RenderSVG_no_breaks [where c = "sampleChoropleth []"])
       (simp_all add: sampleRequest_def sampleChoropleth_def)
  from a b getColour_no_breaks show ?thesis by simp
qed

text \<open>
  Claim C6. When the request has no geography, or its geography has no topojson, or the
  topojson has no arcs or no objects, \<open>getGeoJSON\<close> yields nil (no features), and
  \<open>RenderSVG\<close>, \<open>RenderHorizontalKey\<close> and \<open>RenderVerticalKey\<close> return the empty string,
  not a panic, on every prepared request that holds this result; a request prepared by
  \<open>PrepareSVGRequest\<close> holds it.
\<close>

theorem no_geometry_renders_empty:
  assumes "Geography req = None
           \<or> (\<exists>g. Geography req = Some g \<and> Topojson g = None)
           \<or> (\<exists>g t. Geography req = Some g \<and> Topojson g = Some t \<and> Arcs t = [])
           \<or> (\<exists>g t. Geography req = Some g \<and> Topojson g = Some t \<and> Objects t = [])"
  shows "getGeoJSON ext req = None
         \<and> (\<forall>sr. geoJSON sr = getGeoJSON ext req \<longrightarrow>
               RenderSVG ext sr = Inr '''' \<and> RenderHorizontalKey ext sr = Inr ''''
               \<and> RenderVerticalKey ext sr = Inr '''')
         \<and> (\<forall>sr. PrepareSVGRequest ext req = Inr sr \<longrightarrow> geoJSON sr = None)"
proof -
  have g: "getGeoJSON ext req = None"
    using assms by (auto simp: getGeoJSON_def split: option.splits)
  have r: "\<forall>sr. geoJSON sr = getGeoJSON ext req \<longrightarrow>
               RenderSVG ext sr = Inr '''' \<and> RenderHorizontalKey ext sr = Inr ''''
               \<and> RenderVerticalKey ext sr = Inr ''''"
    by (simp add: g RenderSVG_def RenderHorizontalKey_def RenderVerticalKey_def)
  have p: "\<forall>sr. PrepareSVGRequest ext req = Inr sr \<longrightarrow> geoJSON sr = None"
    by (auto simp: PrepareSVGRequest_def g andThen_def Let_def split: sum.splits prod.splits if_splits)
  from g r p show ?thesis by blast
qed

text \<open>A request without geography: it is prepared, and the map and the horizontal legend
  are empty strings.\<close>

theorem no_geometry_renders_empty_witness:
  "PrepareSVGRequest sampleExternals (sampleRequest None None None)
     = Inr \<lparr>request = sampleRequest None None None, geoJSON = None,
          ViewBoxWidth = 0, ViewBoxHeight = 0, breaks = [], referencePos = Finite 0,
          VerticalLegendWidth = 0, verticalKeyOffset = 0, responsiveSize = False\<rparr>
   \<and> RenderSVG sampleExternals
        \<lparr>request = sampleRequest None None None, geoJSON = None,
          ViewBoxWidth = 0, ViewBoxHeight = 0, breaks = [], referencePos = Finite 0,
          VerticalLegendWidth = 0, verticalKeyOffset = 0, responsiveSize = False\<rparr> = Inr ''''
   \<and> RenderHorizontalKey sampleExternals
        \<lparr>request = sampleRequest None None None, geoJSON = None,
          ViewBoxWidth = 0, ViewBoxHeight = 0, breaks = [], referencePos = Finite 0,
          VerticalLegendWidth = 0, verticalKeyOffset = 0, responsiveSize = False\<rparr> = Inr ''''"
proof -
  have h: "Geography (sampleRequest None None None) = None"
    by (simp add: sampleRequest_def)
  have p: "PrepareSVGRequest sampleExternals (sampleRequest None None None)
     = Inr \<lparr>request = sampleRequest None None None, geoJSON = None,
          ViewBoxWidth = 0, ViewBoxHeight = 0, breaks = [], referencePos = Finite 0,
          VerticalLegendWidth = 0, verticalKeyOffset = 0, responsiveSize = False\<rparr>"
    by (simp add: PrepareSVGRequest_def getGeoJSON_def sampleRequest_def)
  from no_geometry_renders_empty [of "sampleRequest None None None" sampleExternals] h
  have "getGeoJSON sampleExternals (sampleRequest None None None) = None
        \<and> (\<forall>sr. geoJSON sr = getGeoJSON sampleExternals (sampleRequest None None None) \<longrightarrow>
               RenderSVG sampleExternals sr = Inr '''' \<and> RenderHorizontalKey sampleExternals sr = Inr ''''
               \<and> RenderVerticalKey sampleExternals sr = Inr '''')"
    by blast
  then have "RenderSVG sampleExternals
        \<lparr>request = sampleRequest None None None, geoJSON = None,
          ViewBoxWidth = 0, ViewBoxHeight = 0, breaks = [], referencePos = Finite 0,
          VerticalLegendWidth = 0, verticalKeyOffset = 0, responsiveSize = False\<rparr> = Inr ''''
     \<and> RenderHorizontalKey sampleExternals
        \<lparr>request = sampleRequest None None None, geoJSON = None,
          ViewBoxWidth = 0, ViewBoxHeight = 0, breaks = [], referencePos = Finite 0,
          VerticalLegendWidth = 0, verticalKeyOffset = 0, responsiveSize = False\<rparr> = Inr ''''"
    by simp
  with p show ?thesis by simp
qed

section \<open>Colours and titles of the regions: what each feature gets\<close>

lemma andThen_eq_Inr: "andThen m f = Inr y \<longleftrightarrow> (\<exists>x. m = Inr x \<and> f x = Inr y)"
  by (cases m) (simp_all add: andThen_def)

lemma forEach_Inr:
  "forEach f xs = Inr ys \<Longrightarrow> length ys = length xs \<and> (\<forall>i<length xs. f (xs ! i) = Inr (ys ! i))"
proof (induction xs arbitrary: ys)
  case Nil
  then show ?case by simp
next
  case (Cons x xs)
  from Cons.prems obtain y ys' where y: "f x = Inr y" and ys': "forEach f xs = Inr ys'"
    and eq: "ys = y # ys'"
    by (auto simp: andThen_eq_Inr)
  from Cons.IH [OF ys'] have len: "length ys' = length xs"
    and nth: "\<forall>i<length xs. f (xs ! i) = Inr (ys' ! i)" by simp_all
  show ?case
  proof (intro conjI allI impI)
    show "length ys = length (x # xs)" using len eq by simp
  next
    fix i assume "i < length (x # xs)"
    then show "f ((x # xs) ! i) = Inr (ys ! i)"
      using y nth eq by (cases i) simp_all
  qed
qed

lemma mapDataToColour_loop_lookup:
  assumes "mapDataToColour_loop rows bs prefix m = Inr m'"
  shows "(filter (\<lambda>row. JString (prefix @ ID row) = k) rows = [] \<longrightarrow> m' k = m k)
       \<and> (filter (\<lambda>row. JString (prefix @ ID row) = k) rows \<noteq> [] \<longrightarrow>
            (\<exists>c. getColour (Value (last (filter (\<lambda>row. JString (prefix @ ID row) = k) rows))) bs = Inr c
               \<and> m' k = Some \<lparr>vc_value = Value (last (filter (\<lambda>row. JString (prefix @ ID row) = k) rows)),
                              vc_colour = c\<rparr>))"
  using assms
proof (induction rows arbitrary: m)
  case Nil
  then show ?case by simp
next
  case (Cons row rows)
  let ?P = "\<lambda>row. JString (prefix @ ID row) = k"
  from Cons.prems obtain c0 where c0: "getColour (Value row) bs = Inr c0"
    and rest: "mapDataToColour_loop rows bs prefix
                 (m(JString (prefix @ ID row) \<mapsto> \<lparr>vc_value = Value row, vc_colour = c0\<rparr>)) = Inr m'"
    by (auto simp: andThen_eq_Inr)
  note IH = Cons.IH [OF rest]
  show ?case
  proof (cases "filter ?P rows = []")
    case True
    with IH have m': "m' k = (m(JString (prefix @ ID row) \<mapsto> \<lparr>vc_value = Value row, vc_colour = c0\<rparr>)) k"
      by simp
    show ?thesis
    proof (cases "?P row")
      case True
      with \<open>filter ?P rows = []\<close> m' c0 show ?thesis by simp
    next
      case False
      with \<open>filter ?P rows = []\<close> m' show ?thesis by simp
    qed
  next
    case False
    with IH show ?thesis by simp
  qed
qed

lemma appendProperty_prefix:
  "\<exists>rest. Properties (appendProperty ext f n v) n = Some (JString (v @ rest))"
  by (simp add: appendProperty_def Let_def split: option.splits)

lemma sortBreaks_descending:
  "mset (sortBreaks bs False) = mset bs
   \<and> sorted_wrt (\<lambda>a b. LowerBound a \<ge> LowerBound b) (sortBreaks bs False)"
proof -
  have "sorted (map (\<lambda>b. - LowerBound b) (sort_key (\<lambda>b. - LowerBound b) bs))"
    by (rule sorted_sort_key)
  then have "sorted_wrt (\<lambda>a b. LowerBound a \<ge> LowerBound b) (sort_key (\<lambda>b. - LowerBound b) bs)"
    by (simp add: sorted_wrt_map)
  then show ?thesis by (simp add: sortBreaks_def)
qed

lemma getColour_returns: "bs \<noteq> [] \<Longrightarrow> \<exists>col. getColour v bs = Inr col"
  by (simp add: getColour_def index_last andThen_Inr split: option.splits)

lemma mapDataToColour_loop_returns:
  "bs \<noteq> [] \<Longrightarrow> \<exists>m'. mapDataToColour_loop rows bs prefix m = Inr m'"
proof (induction rows arbitrary: m)
  case Nil
  then show ?case by simp
next
  case (Cons row rows)
  from getColour_returns [OF Cons.prems] obtain col where "getColour (Value row) bs = Inr col"
    by blast
  with Cons.IH [OF Cons.prems] show ?case by (simp add: andThen_Inr)
qed

lemma forEach_returns:
  "(\<forall>x\<in>set xs. \<exists>y. f x = Inr y) \<Longrightarrow> \<exists>ys. forEach f xs = Inr ys"
proof (induction xs)
  case Nil
  then show ?case by simp
next
  case (Cons x xs)
  then obtain y ys where "f x = Inr y" "forEach f xs = Inr ys" by auto
  then show ?case by (simp add: andThen_Inr)
qed

lemma setColourAndTitle_returns:
  "Geography req = Some g \<Longrightarrow> \<exists>f'. setColourAndTitle ext req c dataMap missing f = Inr f'"
  by (simp add: setColourAndTitle_def deref_def andThen_Inr Let_def)

lemma setColourAndTitle_geography:
  "setColourAndTitle ext req c dataMap missing f = Inr f' \<Longrightarrow> \<exists>g. Geography req = Some g"
  by (cases "Geography req") (simp_all add: setColourAndTitle_def deref_def andThen_Inl)

lemma sortBreaks_Nil: "sortBreaks bs asc = [] \<longleftrightarrow> bs = []"
  unfolding sortBreaks_def by (metis length_0_conv length_sort)

text \<open>
  Claim C7, as amended. With a nil choropleth or a nil data slice
  \<open>setChoroplethColoursAndTitles\<close> returns the features as they are. With a choropleth
  that has a break, a data slice that is not nil and a geography it returns, without a
  panic. Whenever the request has a choropleth and a data slice that is not nil and the
  function returns, it returns as many features as it was given, and each of them is the
  given feature with a new title under the name property of the geography and a style
  put in front of any style it had. A feature whose id is the prefixed id of no data row
  gets the style \<open>fill: url(#<prefix>-nodata);\<close> and as title its name followed by a space
  and \<open>data unavailable\<close>. A feature whose id is the prefixed id of a data row gets, for the
  last such row, the style \<open>fill: <colour>;\<close> with the colour that \<open>getColour\<close> gives the
  value of the row on the breaks of the choropleth arranged in descending order of their
  lower bounds, and as title its name followed by a space and the value between the
  configured prefix and suffix.
\<close>

theorem choropleth_styles_and_titles:
  "(Choropleth req = None \<or> Data req = None
       \<longrightarrow> setChoroplethColoursAndTitles ext features req = Inr features)
   \<and> (\<forall>c rows g. Choropleth req = Some c \<and> Breaks c \<noteq> [] \<and> Data req = Some rows
          \<and> Geography req = Some g
       \<longrightarrow> (\<exists>features'. setChoroplethColoursAndTitles ext features req = Inr features'))
   \<and> (\<forall>c rows features'. Choropleth req = Some c \<and> Data req = Some rows
          \<and> setChoroplethColoursAndTitles ext features req = Inr features'
       \<longrightarrow> length features' = length features
         \<and> (\<forall>i<length features. \<exists>g style title.
              Geography req = Some g
            \<and> features' ! i =
                appendProperty ext
                  ((features ! i)\<lparr>Properties := (Properties (features ! i))(NameProperty g \<mapsto> JString title)\<rparr>)
                  ''style'' style
            \<and> (\<exists>rest. Properties (features' ! i) ''style'' = Some (JString (style @ rest)))
            \<and> (filter (\<lambda>row. JString (idPrefix ext req @ ''-'' @ ID row) = FeatureID (features ! i)) rows = []
                 \<longrightarrow> style = ''fill: url(#'' @ idPrefix ext req @ ''-nodata);''
                   \<and> title = sprint_v ext (case Properties (features ! i) (NameProperty g) of
                                             Some t \<Rightarrow> t | None \<Rightarrow> JString '''')
                             @ '' '' @ MissingDataText)
            \<and> (filter (\<lambda>row. JString (idPrefix ext req @ ''-'' @ ID row) = FeatureID (features ! i)) rows \<noteq> []
                 \<longrightarrow> (\<exists>col sorted.
                        mset sorted = mset (Breaks c)
                      \<and> sorted_wrt (\<lambda>a b. LowerBound a \<ge> LowerBound b) sorted
                      \<and> getColour
                          (Value (last (filter (\<lambda>row. JString (idPrefix ext req @ ''-'' @ ID row)
                                                       = FeatureID (features ! i)) rows)))
                          sorted = Inr col
                      \<and> style = ''fill: '' @ col @ '';''
                      \<and> title = sprint_v ext (case Properties (features ! i) (NameProperty g) of
                                                Some t \<Rightarrow> t | None \<Rightarrow> JString '''')
                                @ '' '' @ ValuePrefix c
                                @ sprint_g ext (Finite (Value (last (filter
                                     (\<lambda>row. JString (idPrefix ext req @ ''-'' @ ID row)
                                                = FeatureID (features ! i)) rows))))
                                @ ValueSuffix c))))"
proof (intro conjI allI impI)
  assume "Choropleth req = None \<or> Data req = None"
  then show "setChoroplethColoursAndTitles ext features req = Inr features"
    by (auto simp: setChoroplethColoursAndTitles_def split: option.splits)
next
  fix c rows g
  assume a: "Choropleth req = Some c \<and> Breaks c \<noteq> [] \<and> Data req = Some rows
             \<and> Geography req = Some g"
  then have "sortBreaks (Breaks c) False \<noteq> []" by (simp add: sortBreaks_Nil)
  from mapDataToColour_loop_returns [OF this]
  obtain dataMap where dm: "mapDataToColour rows c (idPrefix ext req @ ''-'') = Inr dataMap"
    unfolding mapDataToColour_def by blast
  from a have "\<forall>f\<in>set features. \<exists>f'. setColourAndTitle ext req c dataMap
                   (''fill: url(#'' @ idPrefix ext req @ ''-nodata);'') f = Inr f'"
    using setColourAndTitle_returns by blast
  from forEach_returns [OF this]
  show "\<exists>features'. setChoroplethColoursAndTitles ext features req = Inr features'"
    using a dm by (simp add: setChoroplethColoursAndTitles_def Let_def andThen_Inr)
next
  fix c rows features'
  assume a: "Choropleth req = Some c \<and> Data req = Some rows
             \<and> setChoroplethColoursAndTitles ext features req = Inr features'"
  let ?pre = "idPrefix ext req @ ''-''"
  let ?missing = "''fill: url(#'' @ idPrefix ext req @ ''-nodata);''"
  from a obtain dataMap where
    dm: "mapDataToColour_loop rows (sortBreaks (Breaks c) False) ?pre Map.empty = Inr dataMap"
    and fe: "forEach (setColourAndTitle ext req c dataMap ?missing) features = Inr features'"
    by (auto simp: setChoroplethColoursAndTitles_def mapDataToColour_def Let_def andThen_eq_Inr)
  from forEach_Inr [OF fe] have len: "length features' = length features"
    and each: "\<forall>i<length features.
                 setColourAndTitle ext req c dataMap ?missing (features ! i) = Inr (features' ! i)"
    by simp_all
  have body: "\<exists>g style title.
              Geography req = Some g
            \<and> features' ! i =
                appendProperty ext
                  ((features ! i)\<lparr>Properties := (Properties (features ! i))(NameProperty g \<mapsto> JString title)\<rparr>)
                  ''style'' style
            \<and> (\<exists>rest. Properties (features' ! i) ''style'' = Some (JString (style @ rest)))
            \<and> (filter (\<lambda>row. JString (?pre @ ID row) = FeatureID (features ! i)) rows = []
                 \<longrightarrow> style = ?missing
                   \<and> title = sprint_v ext (case Properties (features ! i) (NameProperty g) of
                                             Some t \<Rightarrow> t | None \<Rightarrow> JString '''')
                             @ '' '' @ MissingDataText)
            \<and> (filter (\<lambda>row. JString (?pre @ ID row) = FeatureID (features ! i)) rows \<noteq> []
                 \<longrightarrow> (\<exists>col sorted.
                        mset sorted = mset (Breaks c)
                      \<and> sorted_wrt (\<lambda>a b. LowerBound a \<ge> LowerBound b) sorted
                      \<and> getColour
                          (Value (last (filter (\<lambda>row. JString (?pre @ ID row)
                                                       = FeatureID (features ! i)) rows)))
                          sorted = Inr col
                      \<and> style = ''fill: '' @ col @ '';''
                      \<and> title = sprint_v ext (case Properties (features ! i) (NameProperty g) of
                                                Some t \<Rightarrow> t | None \<Rightarrow> JString '''')
                                @ '' '' @ ValuePrefix c
                                @ sprint_g ext (Finite (Value (last (filter
                                     (\<lambda>row. JString (?pre @ ID row)
                                                = FeatureID (features ! i)) rows))))
                                @ ValueSuffix c))"
    if i: "i < length features" for i
  proof -
    let ?f = "features ! i"
    let ?matching = "filter (\<lambda>row. JString (?pre @ ID row) = FeatureID ?f) rows"
    from each i have step: "setColourAndTitle ext req c dataMap ?missing ?f = Inr (features' ! i)"
      by simp
    from setColourAndTitle_geography [OF step] obtain g where g: "Geography req = Some g"
      by blast
    let ?name = "sprint_v ext (case Properties ?f (NameProperty g) of Some t \<Rightarrow> t | None \<Rightarrow> JString '''')"
    note look = mapDataToColour_loop_lookup [OF dm, of "FeatureID ?f"]
    show ?thesis
    proof (cases "?matching = []")
      case True
      with look have none: "dataMap (FeatureID ?f) = None" by simp
      from step none g
      have f': "features' ! i = appendProperty ext
              (?f\<lparr>Properties := (Properties ?f)(NameProperty g \<mapsto> JString (?name @ '' '' @ MissingDataText))\<rparr>)
              ''style'' ?missing"
        by (simp add: setColourAndTitle_def deref_def andThen_Inr Let_def)
      have "\<exists>rest. Properties (features' ! i) ''style'' = Some (JString (?missing @ rest))"
        unfolding f' by (rule appendProperty_prefix)
      with f' True g show ?thesis by blast
    next
      case False
      with look obtain col where
        col: "getColour (Value (last ?matching)) (sortBreaks (Breaks c) False) = Inr col"
        and some: "dataMap (FeatureID ?f) = Some \<lparr>vc_value = Value (last ?matching), vc_colour = col\<rparr>"
        by auto
      let ?title = "?name @ '' '' @ ValuePrefix c @ sprint_g ext (Finite (Value (last ?matching)))
                      @ ValueSuffix c"
      from step some g
      have f': "features' ! i = appendProperty ext
              (?f\<lparr>Properties := (Properties ?f)(NameProperty g \<mapsto> JString ?title)\<rparr>)
              ''style'' (''fill: '' @ col @ '';'')"
        by (simp add: setColourAndTitle_def deref_def andThen_Inr Let_def)
      have p: "\<exists>rest. Properties (features' ! i) ''style''
                        = Some (JString ((''fill: '' @ col @ '';'') @ rest))"
        unfolding f' by (rule appendProperty_prefix)
      note s = sortBreaks_descending [of "Breaks c"]
      from f' False col g p s show ?thesis by blast
    qed
  qed
  from len show "length features' = length features" .
  fix i
  assume "i < length features"
  from body [OF this]
  show "\<exists>g style title.
              Geography req = Some g
            \<and> features' ! i =
                appendProperty ext
                  ((features ! i)\<lparr>Properties := (Properties (features ! i))(NameProperty g \<mapsto> JString title)\<rparr>)
                  ''style'' style
            \<and> (\<exists>rest. Properties (features' ! i) ''style'' = Some (JString (style @ rest)))
            \<and> (filter (\<lambda>row. JString (idPrefix ext req @ ''-'' @ ID row) = FeatureID (features ! i)) rows = []
                 \<longrightarrow> style = ''fill: url(#'' @ idPrefix ext req @ ''-nodata);''
                   \<and> title = sprint_v ext (case Properties (features ! i) (NameProperty g) of
                                             Some t \<Rightarrow> t | None \<Rightarrow> JString '''')
                             @ '' '' @ MissingDataText)
            \<and> (filter (\<lambda>row. JString (idPrefix ext req @ ''-'' @ ID row) = FeatureID (features ! i)) rows \<noteq> []
                 \<longrightarrow> (\<exists>col sorted.
                        mset sorted = mset (Breaks c)
                      \<and> sorted_wrt (\<lambda>a b. LowerBound a \<ge> LowerBound b) sorted
                      \<and> getColour
                          (Value (last (filter (\<lambda>row. JString (idPrefix ext req @ ''-'' @ ID row)
                                                       = FeatureID (features ! i)) rows)))
                          sorted = Inr col
                      \<and> style = ''fill: '' @ col @ '';''
                      \<and> title = sprint_v ext (case Properties (features ! i) (NameProperty g) of
                                                Some t \<Rightarrow> t | None \<Rightarrow> JString '''')
                                @ '' '' @ ValuePrefix c
                                @ sprint_g ext (Finite (Value (last (filter
                                     (\<lambda>row. JString (idPrefix ext req @ ''-'' @ ID row)
                                                = FeatureID (features ! i)) rows))))
                                @ ValueSuffix c))"
    by simp
qed

text \<open>Two regions and one data row, for the first region: Leeds is blue and titled with
  the value, York has the pattern of missing data. The same request with a nil data slice:
  the two regions are returned as they were given.\<close>

theorem choropleth_styles_and_titles_witness:
  "setChoroplethColoursAndTitles sampleExternals sampleFeatures
     (sampleRequest (Some sampleGeography) (Some [\<lparr>ID = ''E01'', Value = 70\<rparr>])
        (Some (sampleChoropleth sampleBreaks)))
   = Inr [\<lparr>FeatureID = JString ''map1-E01'',
           Properties = [''name'' \<mapsto> JString ''Leeds GBP70m'', ''style'' \<mapsto> JString ''fill: blue;'']\<rparr>,
          \<lparr>FeatureID = JString ''map1-E02'',
           Properties = [''name'' \<mapsto> JString ''York data unavailable'',
                         ''style'' \<mapsto> JString ''fill: url(#map1-nodata);'']\<rparr>]
   \<and> [\<lparr>FeatureID = JString ''map1-E01'',
           Properties = [''name'' \<mapsto> JString ''Leeds GBP70m'', ''style'' \<mapsto> JString ''fill: blue;'']\<rparr>,
          \<lparr>FeatureID = JString ''map1-E02'',
           Properties = [''name'' \<mapsto> JString ''York data unavailable'',
                         ''style'' \<mapsto> JString ''fill: url(#map1-nodata);'']\<rparr>] ! 1
     = appendProperty sampleExternals
         ((sampleFeatures ! 1)\<lparr>Properties := (Properties (sampleFeatures ! 1))
                                   (''name'' \<mapsto> JString ''York data unavailable'')\<rparr>)
         ''style'' ''fill: url(#map1-nodata);''
   \<and> setChoroplethColoursAndTitles sampleExternals sampleFeatures
       (sampleRequest (Some sampleGeography) None (Some (sampleChoropleth sampleBreaks)))
     = Inr sampleFeatures"
proof -
  let ?R = "sampleRequest (Some sampleGeography) (Some [\<lparr>ID = ''E01'', Value = 70\<rparr>])
              (Some (sampleChoropleth sampleBreaks))"
  let ?F' = "[\<lparr>FeatureID = JString ''map1-E01'',
           Properties = [''name'' \<mapsto> JString ''Leeds GBP70m'', ''style'' \<mapsto> JString ''fill: blue;'']\<rparr>,
          \<lparr>FeatureID = JString ''map1-E02'',
           Properties = [''name'' \<mapsto> JString ''York data unavailable'',
                         ''style'' \<mapsto> JString ''fill: url(#map1-nodata);'']\<rparr>]"
  have run: "setChoroplethColoursAndTitles sampleExternals sampleFeatures ?R = Inr ?F'"
    by (simp add: sampleFeatures_def sampleBreaks_def setChoroplethColoursAndTitles_def
                mapDataToColour_def sortBreaks_def getColour_def
                setColourAndTitle_def appendProperty_def sampleRequest_def sampleGeography_def
                sampleChoropleth_def sampleExternals_def showInteger_def decimal_numeral decimal_small
                MissingDataText_def deref_def andThen_def Let_def)
  have c: "Choropleth ?R = Some (sampleChoropleth sampleBreaks)"
    and d: "Data ?R = Some [\<lparr>ID = ''E01'', Value = 70\<rparr>]"
    and g: "Geography ?R = Some sampleGeography"
    by (simp_all add: sampleRequest_def)
  have len: "1 < length sampleFeatures"
    by (simp add: sampleFeatures_def)
  from choropleth_styles_and_titles [of ?R sampleExternals sampleFeatures, THEN conjunct2,
         THEN conjunct2, rule_format, OF conjI [OF c conjI [OF d run]], THEN conjunct2,
         rule_format, OF len]
  have second: "?F' ! 1 = appendProperty sampleExternals
         ((sampleFeatures ! 1)\<lparr>Properties := (Properties (sampleFeatures ! 1))
                                   (''name'' \<mapsto> JString ''York data unavailable'')\<rparr>)
         ''style'' ''fill: url(#map1-nodata);''"
    by (auto simp: sampleFeatures_def sampleRequest_def sampleExternals_def MissingDataText_def
                   sampleGeography_def)
  have "Data (sampleRequest (Some sampleGeography) None (Some (sampleChoropleth sampleBreaks)))
          = None"
    by (simp add: sampleRequest_def)
  with choropleth_styles_and_titles
         [of "sampleRequest (Some sampleGeography) None (Some (sampleChoropleth sampleBreaks))"
             sampleExternals sampleFeatures, THEN conjunct1]
  have nil: "setChoroplethColoursAndTitles sampleExternals sampleFeatures
       (sampleRequest (Some sampleGeography) None (Some (sampleChoropleth sampleBreaks)))
     = Inr sampleFeatures"
    by simp
  from run second nil show ?thesis by simp
qed

text \<open>
  The claim without the amendment fails on a request whose data slice is nil: the guard
  at the head of the function (svg.go:195-197) returns before any feature is touched, so
  a region without a data row keeps its properties and gets no style and no title of
  missing data, whether or not the choropleth has breaks.
\<close>

theorem choropleth_styles_counterexample:
  "setChoroplethColoursAndTitles sampleExternals sampleFeatures
     (sampleRequest (Some sampleGeography) None (Some (sampleChoropleth sampleBreaks)))
   = Inr sampleFeatures
   \<and> setChoroplethColoursAndTitles sampleExternals sampleFeatures
     (sampleRequest (Some sampleGeography) None (Some (sampleChoropleth [])))
   = Inr sampleFeatures
   \<and> Properties (sampleFeatures ! 1) ''style'' = None
   \<and> Properties (sampleFeatures ! 1) ''name'' = Some (JString ''York'')"
  by (simp add: setChoroplethColoursAndTitles_def sampleRequest_def sampleFeatures_def)

section \<open>The sample requests, prepared\<close>




















section \<open>The layout of the horizontal key\<close>



lemma index_Inr_last: "index xs (int (length xs) - 1) = Inr x \<Longrightarrow> xs \<noteq> [] \<and> x = last xs"
  by (cases xs rule: rev_cases) (auto simp: index_def nth_append)
















section \<open>Responsive and fixed size\<close>












end
